theory Spec2Isabelle
  imports Complex_Main "HOL-Library.Sublist" "HOL-Library.AList"
begin

section \<open>Python strings\<close>

text \<open>
  A Python \<open>str\<close> is modelled as a \<open>string\<close>: each \<open>char\<close> stands for one code point
  below 256. The functions of this section are the \<open>str\<close> methods and built-ins the
  two scripts call, with the names Python gives them.
\<close>

text \<open>\<open>str(n)\<close> and \<open>f"{n}"\<close> for an \<open>int\<close>: the decimal digits, with a leading minus.\<close>

definition digit_char :: "nat \<Rightarrow> char" where
  "digit_char d = char_of (48 + d)"

fun str_nat :: "nat \<Rightarrow> string" where
  "str_nat n = (if n < 10 then [digit_char n] else str_nat (n div 10) @ [digit_char (n mod 10)])"

definition str_int :: "int \<Rightarrow> string" where
  "str_int i = (if i < 0 then CHR ''-'' # str_nat (nat (- i)) else str_nat (nat i))"

text \<open>\<open>sep.join(parts)\<close>.\<close>

fun join :: "string \<Rightarrow> string list \<Rightarrow> string" where
  "join sep [] = []"
| "join sep [p] = p"
| "join sep (p # q # ps) = p @ sep @ join sep (q # ps)"

text \<open>
  \<open>c.isspace()\<close> on the code points below 256: tab, line feed, vertical tab, form
  feed, carriage return, the four separators 0x1C..0x1F, space, NEL and the no-break space.
\<close>

definition py_isspace :: "char \<Rightarrow> bool" where
  "py_isspace c \<longleftrightarrow> c \<in> {CHR 0x09, CHR 0x0A, CHR 0x0B, CHR 0x0C, CHR 0x0D, CHR 0x1C, CHR 0x1D,
                          CHR 0x1E, CHR 0x1F, CHR 0x20, CHR 0x85, CHR 0xA0}"

text \<open>\<open>s.strip()\<close>: leading and trailing whitespace removed.\<close>

definition strip :: "string \<Rightarrow> string" where
  "strip s = rev (dropWhile py_isspace (rev (dropWhile py_isspace s)))"

text \<open>\<open>s.startswith(p)\<close>.\<close>

definition startswith :: "string \<Rightarrow> string \<Rightarrow> bool" where
  "startswith p s \<longleftrightarrow> take (length p) s = p"

text \<open>\<open>s.split(sep)\<close> for a separator of one character: never the empty list.\<close>

fun split_char :: "char \<Rightarrow> string \<Rightarrow> string list" where
  "split_char sep [] = [[]]"
| "split_char sep (c # cs) =
     (if c = sep then [] # split_char sep cs
      else (case split_char sep cs of [] \<Rightarrow> [[c]] | l # ls \<Rightarrow> (c # l) # ls))"

text \<open>\<open>sub in s\<close> and \<open>s.find(sub)\<close>: the lowest index where \<open>sub\<close> occurs, or \<open>-1\<close>.\<close>

fun py_in :: "string \<Rightarrow> string \<Rightarrow> bool" where
  "py_in sub [] \<longleftrightarrow> sub = []"
| "py_in sub (c # cs) \<longleftrightarrow> startswith sub (c # cs) \<or> py_in sub cs"

fun find_from :: "nat \<Rightarrow> string \<Rightarrow> string \<Rightarrow> int" where
  "find_from i sub [] = (if sub = [] then int i else - 1)"
| "find_from i sub (c # cs) = (if startswith sub (c # cs) then int i else find_from (Suc i) sub cs)"

definition find :: "string \<Rightarrow> string \<Rightarrow> int" where
  "find s sub = find_from 0 sub s"

text \<open>
  \<open>s.replace(old, new)\<close>: every occurrence of \<open>old\<close>, found from left to right without
  overlap, is replaced; an empty \<open>old\<close> matches before every character and at the end.
\<close>

function replace :: "string \<Rightarrow> string \<Rightarrow> string \<Rightarrow> string" where
  "replace s old new =
     (if old = [] then new @ concat (map (\<lambda>c. c # new) s)
      else if s = [] then []
      else if startswith old s then new @ replace (drop (length old) s) old new
      else hd s # replace (tl s) old new)"
  by pat_completeness auto
termination
  by (relation "measure (\<lambda>(s, old, new). length s)") auto

text \<open>\<open>s[i:]\<close> for an index \<open>i \<ge> 0\<close>.\<close>

definition slice_from :: "string \<Rightarrow> int \<Rightarrow> string" where
  "slice_from s i = drop (nat i) s"

section \<open>haddock.py: parsing the model's reply\<close>

text \<open>
  The second half of \<open>haddockify\<close> (from \<open>response_text = message.content[0].text\<close> on),
  a function of the reply's text. \<open>parse_line\<close> is the body of the loop over the lines,
  on the pair of variables \<open>(title, description)\<close>.
\<close>

definition parse_line :: "string \<times> string \<Rightarrow> string \<Rightarrow> string \<times> string" where
  "parse_line td line =
     (case td of (title, description) \<Rightarrow>
        if startswith ''TITLE:'' line then (strip (replace line ''TITLE:'' []), description)
        else if startswith ''DESCRIPTION:'' line
          then (title, strip (replace line ''DESCRIPTION:'' []))
        else (title, description))"

definition parse_response :: "string \<Rightarrow> string \<times> string" where
  "parse_response response_text =
     (case foldl parse_line ([], []) (split_char CHR 0x0A response_text) of
        (title, description) \<Rightarrow>
          if py_in ''DESCRIPTION:'' response_text
          then (let desc_start = find response_text ''DESCRIPTION:'' + int (length ''DESCRIPTION:'')
                in (title, strip (slice_from response_text desc_start)))
          else (title, description))"

section \<open>haddock.py: formatting\<close>

text \<open>
  \<open>format_duration(seconds)\<close> for an \<open>int\<close> argument (Strava's \<open>elapsed_time\<close> is a whole
  number of seconds). Python's \<open>//\<close> and \<open>%\<close> on \<open>int\<close> are floor division and its
  remainder, which is what \<open>div\<close> and \<open>mod\<close> are on \<open>int\<close>; \<open>int(...)\<close> of an \<open>int\<close> is
  the identity. The list \<open>parts\<close> is threaded through the three \<open>if\<close> statements.
\<close>

definition format_duration :: "int \<Rightarrow> string" where
  "format_duration seconds =
    (let hours = seconds div 3600;
         minutes = (seconds mod 3600) div 60;
         secs = seconds mod 60;
         parts0 = [];
         parts1 = (if hours \<noteq> 0 then parts0 @ [str_int hours @ ''h''] else parts0);
         parts2 = (if minutes \<noteq> 0 then parts1 @ [str_int minutes @ ''m''] else parts1);
         parts3 = (if secs \<noteq> 0 \<or> parts2 = [] then parts2 @ [str_int secs @ ''s''] else parts2)
     in join '' '' parts3)"

section \<open>Python values\<close>

text \<open>The exceptions the two scripts can raise or let through.\<close>

datatype py_error =
    HTTPError int
  | JSONDecodeError
  | KeyError string
  | TypeError
  | IndexError
  | ValueError
  | OverflowError
  | APIError string

text \<open>
  Python's \<open>float\<close> is kept abstract: a type \<open>'f\<close> with the operations the scripts apply to
  it, passed as a record. Nothing is assumed of IEEE-754 arithmetic or of the digits
  that \<open>format\<close> prints; what is proved holds for every such record.
  \<^item> \<open>f_is_zero x\<close>: \<open>x == 0\<close>, which is also \<open>not x\<close>;
  \<^item> \<open>f_const m d\<close>: the literal whose decimal digits are \<open>m\<close> with \<open>d\<close> of them after the point
    (\<open>f_const 160934 2\<close> is \<open>1609.34\<close>, \<open>f_const 60 0\<close> is \<open>60\<close> converted to \<open>float\<close>);
  \<^item> \<open>f_div\<close>, \<open>f_mul\<close>, \<open>f_floordiv\<close>, \<open>f_mod\<close>: \<open>/\<close>, \<open>*\<close>, \<open>//\<close>, \<open>%\<close>;
  \<^item> \<open>f_int x\<close>: \<open>int(x)\<close>, which raises for an infinity or a NaN;
  \<^item> \<open>f_fmt d x\<close>: \<open>format(x, ".df")\<close>.
\<close>

record 'f float_ops =
  f_is_zero :: "'f \<Rightarrow> bool"
  f_const :: "int \<Rightarrow> nat \<Rightarrow> 'f"
  f_div :: "'f \<Rightarrow> 'f \<Rightarrow> 'f"
  f_mul :: "'f \<Rightarrow> 'f \<Rightarrow> 'f"
  f_floordiv :: "'f \<Rightarrow> 'f \<Rightarrow> 'f"
  f_mod :: "'f \<Rightarrow> 'f \<Rightarrow> 'f"
  f_int :: "'f \<Rightarrow> py_error + int"
  f_fmt :: "nat \<Rightarrow> 'f \<Rightarrow> string"

text \<open>
  A JSON object as the scripts read it: the members they look up, each absent (\<open>None\<close>)
  or present with a value of the type Strava's API gives it, and whether the object has
  members besides these. \<open>act_id\<close>, \<open>act_name\<close> and \<open>act_type\<close> are the members \<open>id\<close>,
  \<open>name\<close> and \<open>type\<close>. An activity is such an object; so is the token endpoint's reply
  (\<open>access_token\<close>, \<open>refresh_token\<close>).
\<close>

record 'f obj =
  act_id :: "int option"
  act_name :: "string option"
  act_type :: "string option"
  start_date_local :: "string option"
  elapsed_time :: "int option"
  distance :: "'f option"
  average_speed :: "'f option"
  average_heartrate :: "'f option"
  max_heartrate :: "'f option"
  calories :: "'f option"
  total_elevation_gain :: "'f option"
  description :: "string option"
  access_token :: "string option"
  refresh_token :: "string option"
  other_members :: bool

text \<open>
  What \<open>response.json()\<close> returns and what the variables \<open>activity\<close> and \<open>activities\<close> hold:
  \<open>None\<close>, an object, or a list.
\<close>

datatype 'f json = JNone | JObject "'f obj" | JArray "'f json list"

text \<open>\<open>bool(x)\<close>: false for \<open>None\<close>, for the object \<open>{}\<close> and for the list \<open>[]\<close>.\<close>

definition has_members :: "'f obj \<Rightarrow> bool" where
  "has_members a \<longleftrightarrow>
     act_id a \<noteq> None \<or> act_name a \<noteq> None \<or> act_type a \<noteq> None \<or> start_date_local a \<noteq> None
     \<or> elapsed_time a \<noteq> None \<or> distance a \<noteq> None \<or> average_speed a \<noteq> None
     \<or> average_heartrate a \<noteq> None \<or> max_heartrate a \<noteq> None \<or> calories a \<noteq> None
     \<or> total_elevation_gain a \<noteq> None \<or> description a \<noteq> None
     \<or> access_token a \<noteq> None \<or> refresh_token a \<noteq> None \<or> other_members a"

fun truthy :: "'f json \<Rightarrow> bool" where
  "truthy JNone \<longleftrightarrow> False"
| "truthy (JObject a) \<longleftrightarrow> has_members a"
| "truthy (JArray xs) \<longleftrightarrow> xs \<noteq> []"

text \<open>\<open>f"{x}"\<close> for a string or \<open>None\<close>.\<close>

definition str_opt :: "string option \<Rightarrow> string" where
  "str_opt x = (case x of None \<Rightarrow> ''None'' | Some s \<Rightarrow> s)"

text \<open>\<open>d.get(key, default)\<close> on a member of an object.\<close>

definition get_or :: "'a option \<Rightarrow> 'a \<Rightarrow> 'a" where
  "get_or member dflt = (case member of None \<Rightarrow> dflt | Some v \<Rightarrow> v)"

text \<open>\<open>f"{n:02d}"\<close>: at least two characters, padded with a zero.\<close>

definition fmt_02d :: "int \<Rightarrow> string" where
  "fmt_02d n = (if 0 \<le> n \<and> n < 10 then CHR ''0'' # str_int n else str_int n)"

section \<open>haddock.py: formatting with floats\<close>

text \<open>
  \<open>format_pace(meters_per_second)\<close>; the argument may be \<open>None\<close>. For a float both
  tests of the guard, \<open>not meters_per_second\<close> and \<open>meters_per_second == 0\<close>, are \<open>f_is_zero\<close>.
\<close>

definition format_pace :: "'f float_ops \<Rightarrow> 'f option \<Rightarrow> py_error + string" where
  "format_pace F meters_per_second =
     (case meters_per_second of
        None \<Rightarrow> Inr ''N/A''
      | Some v \<Rightarrow>
          if f_is_zero F v then Inr ''N/A''
          else
            (let seconds_per_mile = f_div F (f_const F 160934 2) v in
             case f_int F (f_floordiv F seconds_per_mile (f_const F 60 0)) of
               Inl e \<Rightarrow> Inl e
             | Inr minutes \<Rightarrow>
                 (case f_int F (f_mod F seconds_per_mile (f_const F 60 0)) of
                    Inl e \<Rightarrow> Inl e
                  | Inr seconds \<Rightarrow> Inr (str_int minutes @ '':'' @ fmt_02d seconds @ '' /mi''))))"

text \<open>\<open>format_distance(meters)\<close>.\<close>

definition format_distance :: "'f float_ops \<Rightarrow> 'f \<Rightarrow> string" where
  "format_distance F meters =
     (let miles = f_div F meters (f_const F 160934 2) in f_fmt F 2 miles @ '' mi'')"

text \<open>
  \<open>build_workout_summary(activity)\<close>. \<open>summary_lines\<close> is the list \<open>lines\<close> at the
  \<open>return\<close>; the only call that can raise is \<open>format_pace\<close>. A member that is absent
  takes the default of its \<open>get\<close>, which is false wherever it is tested.
\<close>

definition summary_lines :: "'f float_ops \<Rightarrow> 'f obj \<Rightarrow> py_error + string list" where
  "summary_lines F activity =
     (let lines1 = [] @ [''Activity Type: '' @ get_or (act_type activity) ''Workout''];
          lines2 = lines1 @ [''Original Title: '' @ get_or (act_name activity) ''Untitled''];
          elapsed = get_or (elapsed_time activity) 0;
          lines3 = lines2 @ [''Duration: '' @ format_duration elapsed];
          lines4 = (case distance activity of
                      Some d \<Rightarrow> if \<not> f_is_zero F d
                                then lines3 @ [''Distance: '' @ format_distance F d] else lines3
                    | None \<Rightarrow> lines3)
      in case (case average_speed activity of
                 Some v \<Rightarrow>
                   if \<not> f_is_zero F v \<and> act_type activity \<in> {Some ''Run'', Some ''VirtualRun''}
                   then (case format_pace F (Some v) of
                           Inl e \<Rightarrow> Inl e
                         | Inr pace \<Rightarrow> Inr (lines4 @ [''Pace: '' @ pace]))
                   else Inr lines4
               | None \<Rightarrow> Inr lines4) of
           Inl e \<Rightarrow> Inl e
         | Inr lines5 \<Rightarrow>
            (let lines6 = (case average_heartrate activity of
                             Some avg_hr \<Rightarrow>
                               if \<not> f_is_zero F avg_hr
                               then lines5 @ [''Average Heart Rate: '' @ f_fmt F 0 avg_hr @ '' bpm'']
                               else lines5
                           | None \<Rightarrow> lines5);
                 lines7 = (case max_heartrate activity of
                             Some max_hr \<Rightarrow>
                               if \<not> f_is_zero F max_hr
                               then lines6 @ [''Max Heart Rate: '' @ f_fmt F 0 max_hr @ '' bpm'']
                               else lines6
                           | None \<Rightarrow> lines6);
                 lines8 = (case calories activity of
                             Some c \<Rightarrow>
                               if \<not> f_is_zero F c
                               then lines7 @ [''Calories: '' @ f_fmt F 0 c] else lines7
                           | None \<Rightarrow> lines7);
                 lines9 = (case total_elevation_gain activity of
                             Some elevation \<Rightarrow>
                               if \<not> f_is_zero F elevation
                               then lines8 @ [''Elevation Gain: '' @
                                      f_fmt F 0 (f_mul F elevation (f_const F 328084 5)) @ '' ft'']
                               else lines8
                           | None \<Rightarrow> lines8);
                 lines10 = (case description activity of
                              Some d \<Rightarrow>
                                if d \<noteq> [] then lines9 @ [''Original Description: '' @ d]
                                else lines9
                            | None \<Rightarrow> lines9)
             in Inr lines10))"

definition build_workout_summary :: "'f float_ops \<Rightarrow> 'f obj \<Rightarrow> py_error + string" where
  "build_workout_summary F activity =
     (case summary_lines F activity of
        Inl e \<Rightarrow> Inl e
      | Inr lines \<Rightarrow> Inr (join [CHR 0x0A] lines))"

section \<open>haddock.py: the process and its environment\<close>

text \<open>
  The keyword argument of a request: \<open>params=\<close>, \<open>json=\<close>, \<open>data=\<close> (a form whose values may be
  \<open>None\<close>), or none.
\<close>

datatype payload =
    NoPayload
  | Params "(string \<times> int) list"
  | JsonBody "(string \<times> string) list"
  | FormData "(string \<times> string option) list"

record http_request =
  req_verb :: string
  req_url :: string
  req_auth :: "string option"
  req_payload :: payload

text \<open>
  A response: its status code and what \<open>response.json()\<close> gives, \<open>None\<close> when the body is
  not JSON (the call then raises).
\<close>

record 'f response =
  status_code :: int
  body :: "'f json option"

text \<open>
  What \<open>client.messages.create\<close> does: it raises \<open>anthropic.APIError\<close> with a message, or
  returns a message whose content blocks hold these texts.
\<close>

datatype completion = APIFailure string | Message "string list"

text \<open>
  The trace of a run, in order: every request sent with \<open>requests\<close>, every call of the
  text-generation service (with the workout summary its prompt embeds), and, with no
  effect of its own, every entry into \<open>strava_request\<close> with its arguments.
\<close>

datatype event =
    ApiCall string string payload
  | HttpSend http_request
  | LlmCall string

primrec http_sends :: "event list \<Rightarrow> http_request list" where
  "http_sends [] = []"
| "http_sends (e # es) = (case e of HttpSend r \<Rightarrow> r # http_sends es | _ \<Rightarrow> http_sends es)"

primrec llm_calls :: "event list \<Rightarrow> string list" where
  "llm_calls [] = []"
| "llm_calls (e # es) = (case e of LlmCall s \<Rightarrow> s # llm_calls es | _ \<Rightarrow> llm_calls es)"

primrec api_calls :: "event list \<Rightarrow> (string \<times> string \<times> payload) list" where
  "api_calls [] = []"
| "api_calls (e # es) =
     (case e of ApiCall v ep p \<Rightarrow> (v, ep, p) # api_calls es | _ \<Rightarrow> api_calls es)"

text \<open>
  The world outside the process. The remote services are not functions of the request
  alone (a token expires, a model samples), so each answers by the number of requests
  the process has sent it before: \<open>server W k r\<close> is the response to \<open>r\<close> sent as HTTP
  request number \<open>k\<close>, \<open>claude W k s\<close> the outcome of generation call number \<open>k\<close> on summary
  \<open>s\<close>. Every request is answered.
\<close>

record 'f world =
  server :: "nat \<Rightarrow> http_request \<Rightarrow> 'f response"
  claude :: "nat \<Rightarrow> string \<Rightarrow> completion"

text \<open>
  The state of the process: the module's globals (set from the environment by
  \<open>load_dotenv\<close> and \<open>os.getenv\<close>, \<open>None\<close> when unset), the \<open>.env\<close> file, what was printed,
  and the trace.
\<close>

record state =
  STRAVA_CLIENT_ID :: "string option"
  STRAVA_CLIENT_SECRET :: "string option"
  STRAVA_ACCESS_TOKEN :: "string option"
  STRAVA_REFRESH_TOKEN :: "string option"
  ANTHROPIC_API_KEY :: "string option"
  dotenv :: "(string \<times> string) list"
  stdout :: "string list"
  trace :: "event list"

definition py_print :: "string \<Rightarrow> state \<Rightarrow> state" where
  "py_print s st = st\<lparr>stdout := stdout st @ [s]\<rparr>"

text \<open>\<open>set_key(env_path, key, value)\<close>: the key's line is rewritten, or added at the end.\<close>

definition set_key :: "string \<Rightarrow> string \<Rightarrow> state \<Rightarrow> state" where
  "set_key k v st = st\<lparr>dotenv := AList.update k v (dotenv st)\<rparr>"

text \<open>\<open>requests.request\<close> and \<open>requests.post\<close>: the request goes out and is answered.\<close>

definition http_send :: "'f world \<Rightarrow> http_request \<Rightarrow> state \<Rightarrow> 'f response \<times> state" where
  "http_send W r st =
     (server W (length (http_sends (trace st))) r, st\<lparr>trace := trace st @ [HttpSend r]\<rparr>)"

text \<open>
  \<open>response.raise_for_status()\<close> of \<open>requests\<close>: \<open>HTTPError\<close> for a status from 400 to 599,
  nothing otherwise.
\<close>

definition raise_for_status :: "'f response \<Rightarrow> py_error + unit" where
  "raise_for_status response =
     (if 400 \<le> status_code response \<and> status_code response < 600
      then Inl (HTTPError (status_code response)) else Inr ())"

definition json_of :: "'f response \<Rightarrow> py_error + 'f json" where
  "json_of response = (case body response of None \<Rightarrow> Inl JSONDecodeError | Some j \<Rightarrow> Inr j)"

text \<open>
  \<open>tokens[key]\<close> for a string key whose member is \<open>member\<close>: \<open>KeyError\<close> on an object
  without it, \<open>TypeError\<close> on \<open>None\<close> and on a list.
\<close>

definition subscript :: "'f json \<Rightarrow> string \<Rightarrow> ('f obj \<Rightarrow> 'a option) \<Rightarrow> py_error + 'a" where
  "subscript j key member =
     (case j of
        JObject a \<Rightarrow> (case member a of None \<Rightarrow> Inl (KeyError key) | Some v \<Rightarrow> Inr v)
      | JNone \<Rightarrow> Inl TypeError
      | JArray xs \<Rightarrow> Inl TypeError)"

definition token_url :: string where
  "token_url = ''https://www.strava.com/oauth/token''"

definition STRAVA_API_BASE :: string where
  "STRAVA_API_BASE = ''https://www.strava.com/api/v3''"

text \<open>The request \<open>refresh_access_token\<close> posts, built from the globals.\<close>

definition refresh_request :: "state \<Rightarrow> http_request" where
  "refresh_request st =
     \<lparr>req_verb = ''POST'', req_url = token_url, req_auth = None,
      req_payload = FormData [(''client_id'', STRAVA_CLIENT_ID st),
                              (''client_secret'', STRAVA_CLIENT_SECRET st),
                              (''grant_type'', Some ''refresh_token''),
                              (''refresh_token'', STRAVA_REFRESH_TOKEN st)]\<rparr>"

text \<open>
  \<open>refresh_access_token()\<close>. It has no \<open>global\<close> statement: it reads the globals, writes
  the \<open>.env\<close> file and returns the new access token.
\<close>

definition refresh_access_token :: "'f world \<Rightarrow> state \<Rightarrow> (py_error + string) \<times> state" where
  "refresh_access_token W st =
     (case http_send W (refresh_request st) st of (response, st1) \<Rightarrow>
        (case raise_for_status response of
           Inl e \<Rightarrow> (Inl e, st1)
         | Inr _ \<Rightarrow>
            (case json_of response of
               Inl e \<Rightarrow> (Inl e, st1)
             | Inr tokens \<Rightarrow>
                (case subscript tokens ''access_token'' access_token of
                   Inl e \<Rightarrow> (Inl e, st1)
                 | Inr new_access \<Rightarrow>
                    (let st2 = set_key ''STRAVA_ACCESS_TOKEN'' new_access st1 in
                     case subscript tokens ''refresh_token'' refresh_token of
                       Inl e \<Rightarrow> (Inl e, st2)
                     | Inr new_refresh \<Rightarrow>
                         (Inr new_access, set_key ''STRAVA_REFRESH_TOKEN'' new_refresh st2))))))"

text \<open>The request \<open>strava_request\<close> sends for its arguments under an access token.\<close>

definition api_request :: "string option \<Rightarrow> string \<Rightarrow> string \<Rightarrow> payload \<Rightarrow> http_request" where
  "api_request token verb endpoint kwargs =
     \<lparr>req_verb = verb, req_url = STRAVA_API_BASE @ endpoint,
      req_auth = Some (''Bearer '' @ str_opt token), req_payload = kwargs\<rparr>"

text \<open>The last two statements of \<open>strava_request\<close>.\<close>

definition finish :: "'f response \<Rightarrow> state \<Rightarrow> (py_error + 'f json) \<times> state" where
  "finish response st =
     (case raise_for_status response of
        Inl e \<Rightarrow> (Inl e, st)
      | Inr _ \<Rightarrow> (json_of response, st))"

text \<open>\<open>strava_request(method, endpoint, **kwargs)\<close>.\<close>

definition strava_request ::
    "'f world \<Rightarrow> string \<Rightarrow> string \<Rightarrow> payload \<Rightarrow> state \<Rightarrow> (py_error + 'f json) \<times> state" where
  "strava_request W verb endpoint kwargs st =
     (let st0 = st\<lparr>trace := trace st @ [ApiCall verb endpoint kwargs]\<rparr> in
      case http_send W (api_request (STRAVA_ACCESS_TOKEN st0) verb endpoint kwargs) st0 of
        (response, st1) \<Rightarrow>
          if status_code response = 401
          then (case refresh_access_token W (py_print ''Token expired, refreshing...'' st1) of
                  (Inl e, st2) \<Rightarrow> (Inl e, st2)
                | (Inr new_access, st2) \<Rightarrow>
                    (let st3 = st2\<lparr>STRAVA_ACCESS_TOKEN := Some new_access\<rparr> in
                     case http_send W
                            (api_request (STRAVA_ACCESS_TOKEN st3) verb endpoint kwargs) st3 of
                       (response2, st4) \<Rightarrow> finish response2 st4))
          else finish response st1)"

text \<open>\<open>get_last_N_activities\<close>, \<open>get_latest_activity\<close>, \<open>get_activity\<close>.\<close>

definition get_last_N_activities ::
    "'f world \<Rightarrow> int \<Rightarrow> state \<Rightarrow> (py_error + 'f json) \<times> state" where
  "get_last_N_activities W last_n st =
     (case strava_request W ''GET'' ''/athlete/activities'' (Params [(''per_page'', last_n)]) st of
        (Inl e, st1) \<Rightarrow> (Inl e, st1)
      | (Inr activities, st1) \<Rightarrow>
          if \<not> truthy activities then (Inr JNone, st1) else (Inr activities, st1))"

text \<open>\<open>activities[0]\<close>: the first element of a list; an object has no key \<open>0\<close>.\<close>

definition first_item :: "'f json \<Rightarrow> py_error + 'f json" where
  "first_item j =
     (case j of
        JArray xs \<Rightarrow> (case xs of [] \<Rightarrow> Inl IndexError | x # _ \<Rightarrow> Inr x)
      | JObject a \<Rightarrow> Inl (KeyError ''0'')
      | JNone \<Rightarrow> Inl TypeError)"

definition get_latest_activity :: "'f world \<Rightarrow> state \<Rightarrow> (py_error + 'f json) \<times> state" where
  "get_latest_activity W st =
     (case strava_request W ''GET'' ''/athlete/activities'' (Params [(''per_page'', 1)]) st of
        (Inl e, st1) \<Rightarrow> (Inl e, st1)
      | (Inr activities, st1) \<Rightarrow>
          if \<not> truthy activities then (Inr JNone, st1) else (first_item activities, st1))"

definition get_activity :: "'f world \<Rightarrow> int \<Rightarrow> state \<Rightarrow> (py_error + 'f json) \<times> state" where
  "get_activity W activity_id st =
     strava_request W ''GET'' (''/activities/'' @ str_int activity_id) NoPayload st"

text \<open>
  The first half of \<open>haddockify\<close>: the call of the service. The prompt is the fixed
  template around the summary, so the call is recorded by its summary.
\<close>

definition haddockify ::
    "'f world \<Rightarrow> string \<Rightarrow> state \<Rightarrow> (py_error + string \<times> string) \<times> state" where
  "haddockify W workout_summary st =
     (let st1 = st\<lparr>trace := trace st @ [LlmCall workout_summary]\<rparr> in
      case claude W (length (llm_calls (trace st))) workout_summary of
        APIFailure msg \<Rightarrow> (Inl (APIError msg), st1)
      | Message content \<Rightarrow>
          (case content of
             [] \<Rightarrow> (Inl IndexError, st1)
           | response_text # _ \<Rightarrow> (Inr (parse_response response_text), st1)))"

definition update_activity ::
    "'f world \<Rightarrow> int \<Rightarrow> string \<Rightarrow> string \<Rightarrow> state \<Rightarrow> (py_error + 'f json) \<times> state" where
  "update_activity W activity_id title descr st =
     strava_request W ''PUT'' (''/activities/'' @ str_int activity_id)
       (JsonBody [(''name'', title), (''description'', descr)]) st"

section \<open>haddock.py: main\<close>

text \<open>
  The parsed command line; an option not given is \<open>None\<close> (\<open>--dry-run\<close> is a flag).
  \<open>if args.activity:\<close> is true for a number other than 0.
\<close>

record args =
  arg_dry_run :: bool
  arg_activity :: "int option"
  arg_activities :: "int option"

definition given :: "int option \<Rightarrow> bool" where
  "given opt = (case opt of None \<Rightarrow> False | Some n \<Rightarrow> n \<noteq> 0)"

text \<open>How the body of the \<open>for\<close> loop ends: at its last statement, or at its \<open>return\<close>.\<close>

datatype loop_exit = Continue | Return

text \<open>
  What the body of the loop prints before it builds the summary (lines 298 to 306), and
  what it prints once the title and description are generated (lines 315 to 320).
\<close>

definition print_activity :: "'f obj \<Rightarrow> int \<Rightarrow> state \<Rightarrow> state" where
  "print_activity a activity_id st =
     (let original_title = get_or (act_name a) ''Untitled'';
          st1 = py_print (''\<newline>Original Activity: '' @ original_title) st;
          st2 = py_print (''ID: '' @ str_int activity_id) st1;
          st3 = py_print (''Type: '' @ str_opt (act_type a)) st2;
          st4 = py_print (''Date: '' @ take 10 (get_or (start_date_local a) [])) st3
      in py_print ''\<newline>Generating Captain Haddock version...'' st4)"

definition print_version :: "string \<Rightarrow> string \<Rightarrow> state \<Rightarrow> state" where
  "print_version new_title new_description st =
     (let st1 = py_print (''\<newline>'' @ replicate 50 CHR ''='') st;
          st2 = py_print ''HADDOCK VERSION:'' st1;
          st3 = py_print (replicate 50 CHR ''='') st2;
          st4 = py_print (''Title: '' @ new_title) st3;
          st5 = py_print (''Description: '' @ new_description) st4
      in py_print (replicate 50 CHR ''='') st5)"

text \<open>
  The body of the loop, on the element \<open>activity\<close>. \<open>activity["id"]\<close> raises \<open>TypeError\<close>
  on \<open>None\<close> and on a list, \<open>KeyError\<close> on an object without the member.
\<close>

definition process_activity ::
    "'f float_ops \<Rightarrow> 'f world \<Rightarrow> args \<Rightarrow> 'f json \<Rightarrow> state \<Rightarrow> (py_error + loop_exit) \<times> state" where
  "process_activity F W args activity st =
     (case activity of
        JNone \<Rightarrow> (Inl TypeError, st)
      | JArray xs \<Rightarrow> (Inl TypeError, st)
      | JObject a \<Rightarrow>
         (case act_id a of
            None \<Rightarrow> (Inl (KeyError ''id''), st)
          | Some activity_id \<Rightarrow>
             (case build_workout_summary F a of
                Inl e \<Rightarrow> (Inl e, print_activity a activity_id st)
              | Inr summary \<Rightarrow>
                 (case haddockify W summary (print_activity a activity_id st) of
                    (Inl (APIError msg), st6) \<Rightarrow>
                      (Inr Return, py_print (''Error calling Claude API: '' @ msg) st6)
                  | (Inl e, st6) \<Rightarrow> (Inl e, st6)
                  | (Inr (new_title, new_description), st6) \<Rightarrow>
                      if arg_dry_run args
                      then (Inr Continue,
                            py_print ''\<newline>[DRY RUN - No changes made to Strava]''
                              (print_version new_title new_description st6))
                      else
                        (case update_activity W activity_id new_title new_description
                                (py_print ''\<newline>Updating Strava...''
                                   (print_version new_title new_description st6)) of
                           (Inl e, st13) \<Rightarrow> (Inl e, st13)
                         | (Inr _, st13) \<Rightarrow>
                             (Inr Continue,
                              py_print (''\<newline>View it at: https://www.strava.com/activities/''
                                          @ str_int activity_id)
                                (py_print ''Done! Activity updated.'' st13)))))))"

text \<open>\<open>for activity in activities:\<close> over the elements of a list.\<close>

fun for_activities ::
    "'f float_ops \<Rightarrow> 'f world \<Rightarrow> args \<Rightarrow> 'f json list \<Rightarrow> state \<Rightarrow> (py_error + loop_exit) \<times> state" where
  "for_activities F W args [] st = (Inr Continue, st)"
| "for_activities F W args (activity # rest) st =
     (case process_activity F W args activity st of
        (Inl e, st1) \<Rightarrow> (Inl e, st1)
      | (Inr Return, st1) \<Rightarrow> (Inr Return, st1)
      | (Inr Continue, st1) \<Rightarrow> for_activities F W args rest st1)"

text \<open>
  Lines 282 to 290 of \<open>main\<close>: the value of \<open>activities\<close> after the three branches. The
  first and the last put what they fetched in a list of one element.
\<close>

definition fetch_activities :: "'f world \<Rightarrow> args \<Rightarrow> state \<Rightarrow> (py_error + 'f json) \<times> state" where
  "fetch_activities W args st =
     (if given (arg_activity args)
      then (case get_activity W (get_or (arg_activity args) 0) st of
              (Inl e, st1) \<Rightarrow> (Inl e, st1)
            | (Inr activity, st1) \<Rightarrow> (Inr (JArray ([] @ [activity])), st1))
      else if given (arg_activities args)
      then get_last_N_activities W (get_or (arg_activities args) 0) st
      else (case get_latest_activity W st of
              (Inl e, st1) \<Rightarrow> (Inl e, st1)
            | (Inr activity, st1) \<Rightarrow> (Inr (JArray ([] @ [activity])), st1)))"

text \<open>\<open>not s\<close> for a global read from the environment: unset or empty.\<close>

definition unset :: "string option \<Rightarrow> bool" where
  "unset v = (case v of None \<Rightarrow> True | Some s \<Rightarrow> s = [])"

text \<open>
  \<open>main()\<close>. Iterating over an object that has members yields its keys, and
  \<open>activity["id"]\<close> on a key raises \<open>TypeError\<close> at once.
\<close>

definition main :: "'f float_ops \<Rightarrow> 'f world \<Rightarrow> args \<Rightarrow> state \<Rightarrow> (py_error + unit) \<times> state" where
  "main F W args st =
     (if unset (STRAVA_ACCESS_TOKEN st)
      then (Inr (), py_print ''ERROR: No Strava access token. Run 'python auth.py' first.'' st)
      else if unset (ANTHROPIC_API_KEY st)
              \<or> ANTHROPIC_API_KEY st = Some ''your_anthropic_api_key_here''
      then (Inr (), py_print ''Get your key from: https://console.anthropic.com/''
                      (py_print ''ERROR: Set ANTHROPIC_API_KEY in .env file'' st))
      else
        (case fetch_activities W args (py_print ''Fetching activity from Strava...'' st) of
           (Inl e, st1) \<Rightarrow> (Inl e, st1)
         | (Inr activities, st1) \<Rightarrow>
             if \<not> truthy activities then (Inr (), py_print ''No activities found!'' st1)
             else
               (case activities of
                  JArray xs \<Rightarrow>
                    (case for_activities F W args xs st1 of
                       (Inl e, st2) \<Rightarrow> (Inl e, st2)
                     | (Inr _, st2) \<Rightarrow> (Inr (), st2))
                | JObject a \<Rightarrow> (Inl TypeError, st1)
                | JNone \<Rightarrow> (Inl TypeError, st1))))"

section \<open>auth.py\<close>

text \<open>
  A request reaching the local listener, as \<open>do_GET\<close> reads it: the path that \<open>urlparse\<close>
  splits off, and the query as \<open>parse_qs\<close> gives it, each key with the first of its values.
\<close>

record inbound =
  in_path :: string
  in_params :: "(string \<times> string) list"

text \<open>
  The token endpoint's answer to the exchange: status and reason phrase, the body's text,
  and the body as JSON (\<open>None\<close> when it is not JSON) with the members \<open>main\<close> reads.
\<close>

record token_json =
  tj_access_token :: "string option"
  tj_refresh_token :: "string option"
  tj_firstname :: "string option"
  tj_lastname :: "string option"

record token_reply =
  tr_status :: int
  tr_reason :: string
  tr_text :: string
  tr_json :: "token_json option"

text \<open>
  What the authorization flow does, in order: lines printed, the listener bound and
  closed, the browser opened on a URL, a request handled with the status sent back, the
  exchange posted with its form, a key written to the \<open>.env\<close> file.
\<close>

datatype auth_event =
    Printed string
  | ServerBound
  | BrowserOpened string
  | Handled inbound int
  | ServerClosed
  | ExchangePosted "(string \<times> string option) list"
  | KeySet string string

text \<open>
  How \<open>main\<close> ends: it returns, an exception leaves it, or it waits for a request that
  never comes.
\<close>

datatype auth_end = Returned | Raised py_error | Waiting

text \<open>The network calls among the events: everything but printing and the file.\<close>

fun network_call :: "auth_event \<Rightarrow> bool" where
  "network_call (Printed s) \<longleftrightarrow> False"
| "network_call (KeySet k v) \<longleftrightarrow> False"
| "network_call ServerBound \<longleftrightarrow> True"
| "network_call (BrowserOpened u) \<longleftrightarrow> True"
| "network_call (Handled r s) \<longleftrightarrow> True"
| "network_call ServerClosed \<longleftrightarrow> True"
| "network_call (ExchangePosted f) \<longleftrightarrow> True"

definition REDIRECT_URI :: string where
  "REDIRECT_URI = ''http://localhost:8000/callback''"

definition SCOPES :: string where
  "SCOPES = ''read,activity:read_all,activity:write''"

text \<open>\<open>get_auth_url()\<close>; \<open>CLIENT_ID\<close> is the global.\<close>

definition get_auth_url :: "string option \<Rightarrow> string" where
  "get_auth_url client_id =
     ''https://www.strava.com/oauth/authorize'' @ ''?client_id='' @ str_opt client_id
       @ ''&redirect_uri='' @ REDIRECT_URI @ ''&response_type=code'' @ ''&scope='' @ SCOPES"

text \<open>
  \<open>CallbackHandler.do_GET\<close>: the new value of the global \<open>auth_code\<close> and the status sent.
\<close>

definition do_GET :: "inbound \<Rightarrow> string option \<Rightarrow> string option \<times> int" where
  "do_GET r auth_code =
     (if in_path r = ''/callback''
      then (case map_of (in_params r) ''code'' of
              Some c \<Rightarrow> (Some c, 200)
            | None \<Rightarrow>
                (case map_of (in_params r) ''error'' of
                   Some e \<Rightarrow> (auth_code, 400)
                 | None \<Rightarrow> (auth_code, 404)))
      else (auth_code, 404))"

text \<open>
  \<open>while auth_code is None: server.handle_request()\<close> over the requests that arrive, in
  order. When they run out before a code came, \<open>handle_request\<close> never returns: the
  result is \<open>None\<close>. Requests after the one that brought the code are not read.
\<close>

fun await_code :: "inbound list \<Rightarrow> string option \<times> auth_event list" where
  "await_code [] = (None, [])"
| "await_code (r # rs) =
     (case do_GET r None of
        (Some c, status) \<Rightarrow> (Some c, [Handled r status])
      | (None, status) \<Rightarrow>
          (case await_code rs of (code, evs) \<Rightarrow> (code, Handled r status # evs)))"

text \<open>The form \<open>exchange_code_for_tokens(code)\<close> posts.\<close>

definition exchange_form ::
    "string option \<Rightarrow> string option \<Rightarrow> string \<Rightarrow> (string \<times> string option) list" where
  "exchange_form client_id client_secret code =
     [(''client_id'', client_id), (''client_secret'', client_secret),
      (''code'', Some code), (''grant_type'', Some ''authorization_code'')]"

text \<open>\<open>str(e)\<close> for the \<open>HTTPError\<close> that \<open>raise_for_status\<close> raises.\<close>

definition http_error_text :: "token_reply \<Rightarrow> string" where
  "http_error_text reply =
     str_int (tr_status reply)
       @ (if tr_status reply < 500 then '' Client Error: '' else '' Server Error: '')
       @ tr_reason reply @ '' for url: '' @ token_url"

text \<open>
  The \<open>try\<close> block of \<open>main\<close> and its \<open>except\<close> clause, on the answer to the exchange:
  only \<open>HTTPError\<close> is caught.
\<close>

definition save_tokens :: "token_reply \<Rightarrow> auth_end \<times> auth_event list" where
  "save_tokens reply =
     (if 400 \<le> tr_status reply \<and> tr_status reply < 600
      then (Returned, [Printed (''Error exchanging code: '' @ http_error_text reply),
                       Printed (tr_text reply)])
      else
        (case tr_json reply of
           None \<Rightarrow> (Raised JSONDecodeError, [])
         | Some tokens \<Rightarrow>
            (case tj_access_token tokens of
               None \<Rightarrow> (Raised (KeyError ''access_token''), [])
             | Some access \<Rightarrow>
                (case tj_refresh_token tokens of
                   None \<Rightarrow> (Raised (KeyError ''refresh_token''), [])
                 | Some refresh \<Rightarrow>
                     (Returned,
                      [Printed [],
                       Printed (''Success! Authenticated as: '' @ get_or (tj_firstname tokens) []
                                  @ '' '' @ get_or (tj_lastname tokens) []),
                       Printed [],
                       KeySet ''STRAVA_ACCESS_TOKEN'' access,
                       KeySet ''STRAVA_REFRESH_TOKEN'' refresh,
                       Printed ''Tokens saved to .env file!'',
                       Printed [],
                       Printed ''You can now run: python haddock.py''])))))"

text \<open>
  \<open>main()\<close> of \<open>auth.py\<close>, on the two globals, the requests that will reach the listener and
  the token endpoint's answer to a form.
\<close>

definition auth_main ::
    "string option \<Rightarrow> string option \<Rightarrow> inbound list
       \<Rightarrow> ((string \<times> string option) list \<Rightarrow> token_reply) \<Rightarrow> auth_end \<times> auth_event list" where
  "auth_main CLIENT_ID CLIENT_SECRET arriving token_endpoint =
     (if unset CLIENT_ID \<or> unset CLIENT_SECRET \<or> CLIENT_SECRET = Some ''your_client_secret_here''
      then (Returned,
            [Printed ''ERROR: Please set STRAVA_CLIENT_ID and STRAVA_CLIENT_SECRET in .env file'',
             Printed ''Copy .env.example to .env and fill in your credentials.''])
      else
        (let auth_url = get_auth_url CLIENT_ID;
             banner =
               [Printed (replicate 60 CHR ''=''), Printed ''Strava OAuth Authentication'',
                Printed (replicate 60 CHR ''=''), Printed [],
                Printed ''This will open your browser to authorize the app.'',
                Printed (''Requesting scopes: '' @ SCOPES), Printed [],
                Printed ''If browser doesn't open, visit this URL:'', Printed auth_url,
                Printed [], ServerBound, BrowserOpened auth_url,
                Printed ''Waiting for authorization...'']
         in case await_code arriving of
              (None, handled) \<Rightarrow> (Waiting, banner @ handled)
            | (Some code, handled) \<Rightarrow>
                (let form = exchange_form CLIENT_ID CLIENT_SECRET code;
                     before = banner @ handled
                        @ [ServerClosed, Printed [],
                           Printed ''Got authorization code, exchanging for tokens...'',
                           ExchangePosted form]
                 in case save_tokens (token_endpoint form) of
                      (how, evs) \<Rightarrow> (how, before @ evs))))"

section \<open>Notions the properties are stated with\<close>

text \<open>
  The line a summary holds for an optional member: none when the member is absent or
  fails the test of its \<open>if\<close>, else the label followed by the rendered value.
\<close>

definition opt_line :: "('a \<Rightarrow> bool) \<Rightarrow> 'a option \<Rightarrow> string \<Rightarrow> ('a \<Rightarrow> string) \<Rightarrow> string list" where
  "opt_line keep member label render =
     (case member of
        None \<Rightarrow> []
      | Some v \<Rightarrow> if keep v then [label @ render v] else [])"

text \<open>The run types, and the pace line: present for a run with a non-zero average speed.\<close>

definition is_run :: "'f obj \<Rightarrow> bool" where
  "is_run a \<longleftrightarrow> act_type a = Some ''Run'' \<or> act_type a = Some ''VirtualRun''"

definition pace_lines :: "'f float_ops \<Rightarrow> 'f obj \<Rightarrow> py_error + string list" where
  "pace_lines F a =
     (case average_speed a of
        None \<Rightarrow> Inr []
      | Some v \<Rightarrow>
          if \<not> f_is_zero F v \<and> is_run a
          then (case format_pace F (Some v) of Inl e \<Rightarrow> Inl e | Inr p \<Rightarrow> Inr [''Pace: '' @ p])
          else Inr [])"

text \<open>The label of a line (what stands before its first colon), and the labels in order.\<close>

definition line_label :: "string \<Rightarrow> string" where
  "line_label l = takeWhile (\<lambda>c. c \<noteq> CHR '':'') l"

definition summary_labels :: "string list" where
  "summary_labels =
     [''Activity Type'', ''Original Title'', ''Duration'', ''Distance'', ''Pace'',
      ''Average Heart Rate'', ''Max Heart Rate'', ''Calories'', ''Elevation Gain'',
      ''Original Description'']"

text \<open>
  The tokens of a reply of the token endpoint that lets a refresh succeed: its status is
  not one \<open>raise_for_status\<close> rejects and its body is an object with both members.
\<close>

definition token_pair :: "'f response \<Rightarrow> (string \<times> string) option" where
  "token_pair reply =
     (if 400 \<le> status_code reply \<and> status_code reply < 600 then None
      else (case body reply of
              Some (JObject t) \<Rightarrow>
                (case access_token t of
                   None \<Rightarrow> None
                 | Some a \<Rightarrow> (case refresh_token t of None \<Rightarrow> None | Some r \<Rightarrow> Some (a, r)))
            | _ \<Rightarrow> None))"

text \<open>The globals a refresh request is built from are the same in two states.\<close>

definition same_credentials :: "state \<Rightarrow> state \<Rightarrow> bool" where
  "same_credentials st st' \<longleftrightarrow>
     STRAVA_CLIENT_ID st' = STRAVA_CLIENT_ID st \<and>
     STRAVA_CLIENT_SECRET st' = STRAVA_CLIENT_SECRET st \<and>
     STRAVA_REFRESH_TOKEN st' = STRAVA_REFRESH_TOKEN st"

text \<open>The requests of a trace that went to the token endpoint.\<close>

definition refresh_posts :: "event list \<Rightarrow> http_request list" where
  "refresh_posts tr = filter (\<lambda>q. req_url q = token_url) (http_sends tr)"

text \<open>
  The update calls of a trace: the calls of \<open>strava_request\<close> with \<open>PUT\<close>, each by its
  endpoint and its \<open>json=\<close> argument.
\<close>

definition update_calls :: "event list \<Rightarrow> (string \<times> payload) list" where
  "update_calls tr = map snd (filter (\<lambda>c. fst c = ''PUT'') (api_calls tr))"

text \<open>
  The requests one call of \<open>strava_request\<close> sends for its arguments: the request with
  the verb, the endpoint under the API's base and the keyword argument; or that request
  and then a post to the token endpoint (the refresh failed); or the request, the post
  and the request a second time.
\<close>

definition carries :: "string \<Rightarrow> string \<Rightarrow> payload \<Rightarrow> http_request \<Rightarrow> bool" where
  "carries verb endpoint kwargs q \<longleftrightarrow>
     req_verb q = verb \<and> req_url q = STRAVA_API_BASE @ endpoint \<and> req_payload q = kwargs"

fun wrapper_sends :: "string \<Rightarrow> string \<Rightarrow> payload \<Rightarrow> http_request list \<Rightarrow> bool" where
  "wrapper_sends verb endpoint kwargs [q] \<longleftrightarrow> carries verb endpoint kwargs q"
| "wrapper_sends verb endpoint kwargs [q, t] \<longleftrightarrow>
     carries verb endpoint kwargs q \<and> req_url t = token_url"
| "wrapper_sends verb endpoint kwargs [q, t, q'] \<longleftrightarrow>
     carries verb endpoint kwargs q \<and> req_url t = token_url \<and> carries verb endpoint kwargs q'"
| "wrapper_sends verb endpoint kwargs qs \<longleftrightarrow> False"

text \<open>The requests sent for an update call, by its endpoint and its \<open>json=\<close> argument.\<close>

definition update_sends :: "string \<times> payload \<Rightarrow> http_request list \<Rightarrow> bool" where
  "update_sends u qs \<longleftrightarrow> wrapper_sends ''PUT'' (fst u) (snd u) qs"

text \<open>
  The outcomes of consecutive generation calls, the first of them call number \<open>k\<close>, by
  their summaries; an outcome has a text when it is a message with a content block.
\<close>

fun has_text :: "completion \<Rightarrow> bool" where
  "has_text (APIFailure m) \<longleftrightarrow> False"
| "has_text (Message content) \<longleftrightarrow> content \<noteq> []"


text \<open>
  The title and description generated for an activity by generation call number \<open>k\<close>,
  and the update call that carries them to the activity's record.
\<close>

definition generated :: "'f float_ops \<Rightarrow> 'f world \<Rightarrow> nat \<Rightarrow> 'f obj \<Rightarrow> (string \<times> string) option" where
  "generated F W k a =
     (case build_workout_summary F a of
        Inl e \<Rightarrow> None
      | Inr s \<Rightarrow>
          (case claude W k s of
             APIFailure m \<Rightarrow> None
           | Message content \<Rightarrow>
               (case content of [] \<Rightarrow> None | t # ts \<Rightarrow> Some (parse_response t))))"

definition expected_update ::
    "'f float_ops \<Rightarrow> 'f world \<Rightarrow> nat \<Rightarrow> 'f json \<Rightarrow> (string \<times> payload) option" where
  "expected_update F W k x =
     (case x of
        JObject a \<Rightarrow>
          (case act_id a of
             None \<Rightarrow> None
           | Some i \<Rightarrow>
               (case generated F W k a of
                  None \<Rightarrow> None
                | Some (title, descr) \<Rightarrow>
                    Some (''/activities/'' @ str_int i,
                          JsonBody [(''name'', title), (''description'', descr)])))
      | JNone \<Rightarrow> None
      | JArray xs \<Rightarrow> None)"


text \<open>The activities \<open>main\<close> has to process: the list its fetch resolves to.\<close>

definition fetched :: "'f world \<Rightarrow> args \<Rightarrow> state \<Rightarrow> 'f json list" where
  "fetched W args st =
     (case fst (fetch_activities W args (py_print ''Fetching activity from Strava...'' st)) of
        Inr (JArray xs) \<Rightarrow> xs
      | _ \<Rightarrow> [])"

text \<open>
  Two relations between the state before and the state after some steps: every refresh
  in between posted the request built from the globals at the start; and nothing in
  between entered the wrapper or sent a request.
\<close>

definition refreshes_as :: "state \<Rightarrow> state \<Rightarrow> bool" where
  "refreshes_as st st' \<longleftrightarrow>
     same_credentials st st' \<and>
     (\<exists>new. trace st' = trace st @ new \<and> (\<forall>q\<in>set (refresh_posts new). q = refresh_request st))"


section \<open>Concrete inputs\<close>

text \<open>
  To run the model on concrete inputs, the float operations read as exact arithmetic on
  rationals, \<open>format\<close> rounding half to even. This is one instance of \<open>float_ops\<close>, not
  a model of IEEE-754 doubles.
\<close>

definition fmt_fixed :: "nat \<Rightarrow> rat \<Rightarrow> string" where
  "fmt_fixed d x =
     (let q = \<bar>x\<bar> * 10 ^ d;
          fl = \<lfloor>q\<rfloor>;
          n = (if q - of_int fl > 1 / 2 \<or> (q - of_int fl = 1 / 2 \<and> odd fl) then fl + 1 else fl);
          whole = str_int (n div 10 ^ d);
          frac = str_int (n mod 10 ^ d);
          digits = (if d = 0 then whole
                    else whole @ ''.'' @ replicate (d - length frac) CHR ''0'' @ frac)
      in if x < 0 then CHR ''-'' # digits else digits)"

definition exact_ops :: "rat float_ops" where
  "exact_ops =
     \<lparr>f_is_zero = (\<lambda>x. x = 0),
      f_const = (\<lambda>m d. of_int m / 10 ^ d),
      f_div = (\<lambda>x y. x / y),
      f_mul = (\<lambda>x y. x * y),
      f_floordiv = (\<lambda>x y. of_int \<lfloor>x / y\<rfloor>),
      f_mod = (\<lambda>x y. x - y * of_int \<lfloor>x / y\<rfloor>),
      f_int = (\<lambda>x. Inr (if x < 0 then - \<lfloor>- x\<rfloor> else \<lfloor>x\<rfloor>)),
      f_fmt = fmt_fixed\<rparr>"

text \<open>An object with no member, two activities, and the token endpoint's object.\<close>

definition empty_obj :: "rat obj" where
  "empty_obj =
     \<lparr>act_id = None, act_name = None, act_type = None, start_date_local = None,
      elapsed_time = None, distance = None, average_speed = None, average_heartrate = None,
      max_heartrate = None, calories = None, total_elevation_gain = None, description = None,
      access_token = None, refresh_token = None, other_members = False\<rparr>"

definition morning_run :: "rat obj" where
  "morning_run =
     empty_obj\<lparr>act_id := Some 42, act_name := Some ''Morning Run'', act_type := Some ''Run'',
               start_date_local := Some ''2024-05-01T07:00:00Z'', elapsed_time := Some 3661,
               distance := Some 10000, average_speed := Some (268 / 100),
               average_heartrate := Some 150, total_elevation_gain := Some 100\<rparr>"

definition evening_ride :: "rat obj" where
  "evening_ride =
     empty_obj\<lparr>act_id := Some 43, act_name := Some ''Evening Ride'', act_type := Some ''Ride'',
               elapsed_time := Some 90, average_speed := Some 7\<rparr>"

definition token_obj :: "string \<Rightarrow> string \<Rightarrow> rat obj" where
  "token_obj a r = empty_obj\<lparr>access_token := Some a, refresh_token := Some r\<rparr>"

definition ok_reply :: "rat json \<Rightarrow> rat response" where
  "ok_reply j = \<lparr>status_code = 200, body = Some j\<rparr>"

definition status_reply :: "int \<Rightarrow> rat response" where
  "status_reply s = \<lparr>status_code = s, body = None\<rparr>"

definition haddock_reply :: completion where
  "haddock_reply =
     Message [''TITLE: Blistering Barnacles\<newline>DESCRIPTION: Six miles!\<newline>Thundering typhoons.'']"

text \<open>A process started with every global set, and the three ways to call \<open>main\<close>.\<close>

definition start_state :: state where
  "start_state =
     \<lparr>STRAVA_CLIENT_ID = Some ''12345'', STRAVA_CLIENT_SECRET = Some ''shh'',
      STRAVA_ACCESS_TOKEN = Some ''old-access'', STRAVA_REFRESH_TOKEN = Some ''old-refresh'',
      ANTHROPIC_API_KEY = Some ''sk-key'',
      dotenv = [(''STRAVA_ACCESS_TOKEN'', ''old-access''),
                (''STRAVA_REFRESH_TOKEN'', ''old-refresh'')],
      stdout = [], trace = []\<rparr>"

definition latest_args :: args where
  "latest_args = \<lparr>arg_dry_run = False, arg_activity = None, arg_activities = None\<rparr>"

definition last_n_args :: "int \<Rightarrow> args" where
  "last_n_args n = \<lparr>arg_dry_run = False, arg_activity = None, arg_activities = Some n\<rparr>"

text \<open>
  Worlds. In \<open>healthy_world\<close> the access token is valid: the list endpoint returns the
  first \<open>per_page\<close> of three activities, every other call the morning run, and generation
  succeeds. In
  \<open>no_activities_world\<close> the athlete has no activity. In \<open>stale_world\<close> the service answers
  401 to every call while the token endpoint grants new tokens; in \<open>refresh_denied_world\<close>
  the token endpoint answers 400; in \<open>redirect_world\<close> the service answers the new token
  with a 302 that carries a JSON body. In \<open>expiring_world\<close> every first attempt is answered
  401, then a refresh is granted tokens that name the request, then the retry succeeds.
  In \<open>tired_world\<close> generation succeeds once and fails from then on.
\<close>

definition per_page :: "http_request \<Rightarrow> nat" where
  "per_page q = (case req_payload q of Params [(k, n)] \<Rightarrow> nat n | _ \<Rightarrow> 30)"

definition api_reply :: "http_request \<Rightarrow> rat response" where
  "api_reply q =
     (if req_verb q = ''GET'' \<and> req_url q = STRAVA_API_BASE @ ''/athlete/activities''
      then ok_reply (JArray (take (per_page q)
                       [JObject morning_run, JObject evening_ride, JObject morning_run]))
      else ok_reply (JObject morning_run))"

definition grant :: "string \<Rightarrow> string \<Rightarrow> rat response" where
  "grant a r = ok_reply (JObject (token_obj a r))"


definition no_activities_world :: "rat world" where
  "no_activities_world =
     \<lparr>server = (\<lambda>k q. ok_reply (JArray [])), claude = (\<lambda>k s. haddock_reply)\<rparr>"

definition stale_world :: "rat world" where
  "stale_world =
     \<lparr>server = (\<lambda>k q. if req_url q = token_url then grant ''new-access'' ''new-refresh''
                       else status_reply 401),
      claude = (\<lambda>k s. haddock_reply)\<rparr>"

definition refresh_denied_world :: "rat world" where
  "refresh_denied_world =
     \<lparr>server = (\<lambda>k q. if req_url q = token_url then status_reply 400 else status_reply 401),
      claude = (\<lambda>k s. haddock_reply)\<rparr>"

definition redirect_world :: "rat world" where
  "redirect_world =
     \<lparr>server = (\<lambda>k q. if req_url q = token_url then grant ''new-access'' ''new-refresh''
                       else if req_auth q = Some ''Bearer new-access''
                       then \<lparr>status_code = 302, body = Some (JArray [])\<rparr>
                       else status_reply 401),
      claude = (\<lambda>k s. haddock_reply)\<rparr>"

definition expiring_world :: "rat world" where
  "expiring_world =
     \<lparr>server = (\<lambda>k q. if k mod 3 = 0 then status_reply 401
                       else if k mod 3 = 1
                       then grant (''access-'' @ str_nat k) (''refresh-'' @ str_nat k)
                       else api_reply q),
      claude = (\<lambda>k s. haddock_reply)\<rparr>"

definition tired_world :: "rat world" where
  "tired_world =
     \<lparr>server = (\<lambda>k q. api_reply q),
      claude = (\<lambda>k s. if k = 0 then haddock_reply else APIFailure ''overloaded'')\<rparr>"


text \<open>
  The states of a run in \<open>tired_world\<close> on the last three activities: after the list is
  fetched, and after the first activity is processed.
\<close>

definition tired_listed :: state where
  "tired_listed = snd (get_last_N_activities tired_world 3
                         (py_print ''Fetching activity from Strava...'' start_state))"

definition tired_after_first :: state where
  "tired_after_first =
     snd (for_activities exact_ops tired_world (last_n_args 3) [JObject morning_run] tired_listed)"

text \<open>The redirect that brings the code, and a token endpoint that grants the exchange.\<close>

definition callback_with_code :: inbound where
  "callback_with_code = \<lparr>in_path = ''/callback'', in_params = [(''code'', ''abc123'')]\<rparr>"

definition granting_endpoint :: "(string \<times> string option) list \<Rightarrow> token_reply" where
  "granting_endpoint form =
     \<lparr>tr_status = 200, tr_reason = ''OK'', tr_text = [],
      tr_json = Some \<lparr>tj_access_token = Some ''new-access'',
                      tj_refresh_token = Some ''new-refresh'',
                      tj_firstname = Some ''Archibald'', tj_lastname = Some ''Haddock''\<rparr>\<rparr>"

declare str_nat.simps [simp del]
declare replace.simps [simp del]


section \<open>Properties of the formatters\<close>

lemma mod_3600_60: "(seconds::int) mod 3600 mod 60 = seconds mod 60"
  by (rule mod_mod_cancel) simp

lemma hms_decompose:
  "(seconds::int) = 3600 * (seconds div 3600) + 60 * (seconds mod 3600 div 60) + seconds mod 60"
proof -
  have "seconds = 3600 * (seconds div 3600) + seconds mod 3600"
    by simp
  moreover have "seconds mod 3600 = 60 * (seconds mod 3600 div 60) + seconds mod 3600 mod 60"
    by simp
  ultimately show ?thesis
    unfolding mod_3600_60 by linarith
qed

lemma hms_bounds:
  "0 \<le> (seconds::int) \<Longrightarrow> 0 \<le> seconds div 3600"
  "0 \<le> seconds mod 3600 div 60" "seconds mod 3600 div 60 < 60"
  "0 \<le> seconds mod 60" "seconds mod 60 < 60"
  by (simp_all add: pos_imp_zdiv_nonneg_iff)

lemma format_duration_parts:
  "format_duration seconds =
     join '' '' ((if seconds div 3600 = 0 then [] else [str_int (seconds div 3600) @ ''h'']) @
                 (if seconds mod 3600 div 60 = 0 then []
                  else [str_int (seconds mod 3600 div 60) @ ''m'']) @
                 (if seconds mod 60 = 0 \<and> (seconds div 3600 \<noteq> 0 \<or> seconds mod 3600 div 60 \<noteq> 0)
                  then [] else [str_int (seconds mod 60) @ ''s'']))"
  unfolding format_duration_def Let_def by simp

lemma format_duration_examples:
  "format_duration 0 = ''0s''" "format_duration 3661 = ''1h 1m 1s''"
  "format_duration 90 = ''1m 30s''"
  by code_simp+

text \<open>
  C8. For a non-negative whole number of seconds, \<open>format_duration\<close> splits it into hours,
  minutes below 60 and seconds below 60, and renders the non-zero units in the order
  \<open>Xh Ym Zs\<close>, separated by single spaces; the seconds unit is also shown when hours and
  minutes are both zero, so the result is then exactly \<open>Zs\<close>. 0 gives \<open>0s\<close>, 3661 gives
  \<open>1h 1m 1s\<close> and 90 gives \<open>1m 30s\<close>.
\<close>

theorem format_duration_compact:
  assumes "0 \<le> seconds"
  shows "(let h = seconds div 3600; m = seconds mod 3600 div 60; s = seconds mod 60 in
           seconds = 3600 * h + 60 * m + s \<and> 0 \<le> h \<and> 0 \<le> m \<and> m < 60 \<and> 0 \<le> s \<and> s < 60 \<and>
           format_duration seconds =
             join '' '' ((if h = 0 then [] else [str_int h @ ''h'']) @
                         (if m = 0 then [] else [str_int m @ ''m'']) @
                         (if s = 0 \<and> (h \<noteq> 0 \<or> m \<noteq> 0) then [] else [str_int s @ ''s''])) \<and>
           (h = 0 \<and> m = 0 \<longrightarrow> format_duration seconds = str_int s @ ''s'')) \<and>
         format_duration 0 = ''0s'' \<and>
         format_duration 3661 = ''1h 1m 1s'' \<and>
         format_duration 90 = ''1m 30s''"
proof -
  have small: "seconds div 3600 = 0 \<and> seconds mod 3600 div 60 = 0 \<longrightarrow>
      format_duration seconds = str_int (seconds mod 60) @ ''s''"
    by (simp add: format_duration_parts)
  have "seconds = 3600 * (seconds div 3600) + 60 * (seconds mod 3600 div 60) + seconds mod 60"
    by (rule hms_decompose)
  then show ?thesis
    unfolding Let_def
    using hms_bounds [of seconds] assms format_duration_parts [of seconds] small
      format_duration_examples
    by blast
qed

theorem format_duration_compact_witness:
  "(0::int) \<le> 3600 \<and> format_duration 3600 = ''1h'' \<and> format_duration 59 = ''59s''"
  using format_duration_compact [of 3600] format_duration_compact [of 59]
  by (simp add: Let_def) code_simp

section \<open>Properties of the reply parser\<close>

text \<open>
  C2. The parser at a reply whose title line holds the marker \<open>TITLE:\<close> a second time:
  \<open>replace\<close> removes every occurrence of the marker, not only the prefix, so the title
  returned is not the text after the prefix.
\<close>

theorem parse_response_title_replace_all:
  "parse_response ''TITLE: a TITLE: b'' = (''a  b'', [])"
  by code_simp

section \<open>Properties of the workout summary\<close>

lemma opt_step:
  "(case m of None \<Rightarrow> ls | Some v \<Rightarrow> if keep v then ls @ [f v] else ls) =
     ls @ (case m of None \<Rightarrow> [] | Some v \<Rightarrow> if keep v then [f v] else [])"
  by (simp split: option.splits)

lemma pace_step:
  "(case average_speed a of
      Some v \<Rightarrow>
        if \<not> f_is_zero F v \<and> act_type a \<in> {Some ''Run'', Some ''VirtualRun''}
        then (case format_pace F (Some v) of
                Inl e \<Rightarrow> Inl e
              | Inr pace \<Rightarrow> Inr (ls @ [''Pace: '' @ pace]))
        else Inr ls
    | None \<Rightarrow> Inr ls) =
   (case pace_lines F a of Inl e \<Rightarrow> Inl e | Inr p \<Rightarrow> Inr (ls @ p))"
  by (simp add: pace_lines_def is_run_def split: option.splits sum.splits)

lemma summary_lines_eq:
  "summary_lines F a =
     (case pace_lines F a of
        Inl e \<Rightarrow> Inl e
      | Inr pace \<Rightarrow>
          Inr ([''Activity Type: '' @ get_or (act_type a) ''Workout'',
                ''Original Title: '' @ get_or (act_name a) ''Untitled'',
                ''Duration: '' @ format_duration (get_or (elapsed_time a) 0)]
               @ opt_line (\<lambda>v. \<not> f_is_zero F v) (distance a) ''Distance: '' (format_distance F)
               @ pace
               @ opt_line (\<lambda>v. \<not> f_is_zero F v) (average_heartrate a) ''Average Heart Rate: ''
                   (\<lambda>v. f_fmt F 0 v @ '' bpm'')
               @ opt_line (\<lambda>v. \<not> f_is_zero F v) (max_heartrate a) ''Max Heart Rate: ''
                   (\<lambda>v. f_fmt F 0 v @ '' bpm'')
               @ opt_line (\<lambda>v. \<not> f_is_zero F v) (calories a) ''Calories: '' (f_fmt F 0)
               @ opt_line (\<lambda>v. \<not> f_is_zero F v) (total_elevation_gain a) ''Elevation Gain: ''
                   (\<lambda>v. f_fmt F 0 (f_mul F v (f_const F 328084 5)) @ '' ft'')
               @ opt_line (\<lambda>d. d \<noteq> []) (description a) ''Original Description: '' (\<lambda>d. d)))"
  unfolding summary_lines_def Let_def pace_step opt_step
  by (cases "pace_lines F a") (simp_all add: opt_line_def)


lemma line_label_prefix:
  "CHR '':'' \<notin> set lab \<Longrightarrow> line_label (lab @ CHR '':'' # x) = lab"
  by (induction lab) (auto simp: line_label_def)

lemma opt_line_labels:
  "CHR '':'' \<notin> set lab \<Longrightarrow>
     map line_label (opt_line keep m (lab @ CHR '':'' # sp) r) =
       (if (\<exists>v. m = Some v \<and> keep v) then [lab] else [])"
  using line_label_prefix [of lab]
  by (auto simp: opt_line_def split: option.splits)

lemma opt_line_subseq:
  "CHR '':'' \<notin> set lab \<Longrightarrow>
     subseq (map line_label (opt_line keep m (lab @ CHR '':'' # sp) r)) [lab]"
  by (simp add: opt_line_labels)

lemma pace_lines_labels:
  "pace_lines F a = Inr p \<Longrightarrow> map line_label p = (if p = [] then [] else [''Pace''])"
  using line_label_prefix [of "''Pace''"]
  by (auto simp: pace_lines_def split: option.splits if_splits sum.splits)

lemma pace_lines_not_run: "\<not> is_run a \<Longrightarrow> pace_lines F a = Inr []"
  by (simp add: pace_lines_def split: option.splits)

lemma summary_labels_split:
  "summary_labels =
     [''Activity Type'', ''Original Title'', ''Duration''] @ [''Distance''] @ [''Pace'']
       @ [''Average Heart Rate''] @ [''Max Heart Rate''] @ [''Calories'']
       @ [''Elevation Gain''] @ [''Original Description'']"
  by (simp add: summary_labels_def)

lemma subseq_set_mono: "subseq xs ys \<Longrightarrow> set xs \<subseteq> set ys"
  by (induction rule: list_emb.induct) auto

lemma summary_lines_labels_pace:
  assumes "summary_lines F a = Inr ls" and p: "pace_lines F a = Inr p"
  shows "subseq (map line_label ls)
           ([''Activity Type'', ''Original Title'', ''Duration''] @ [''Distance'']
              @ map line_label p @ [''Average Heart Rate''] @ [''Max Heart Rate'']
              @ [''Calories''] @ [''Elevation Gain''] @ [''Original Description''])"
proof -
  have hd3: "map line_label
      [''Activity Type: '' @ get_or (act_type a) ''Workout'',
       ''Original Title: '' @ get_or (act_name a) ''Untitled'',
       ''Duration: '' @ format_duration (get_or (elapsed_time a) 0)] =
      [''Activity Type'', ''Original Title'', ''Duration'']"
    using line_label_prefix [of "''Activity Type''"] line_label_prefix [of "''Original Title''"]
      line_label_prefix [of "''Duration''"]
    by simp
  have ls: "ls =
      [''Activity Type: '' @ get_or (act_type a) ''Workout'',
       ''Original Title: '' @ get_or (act_name a) ''Untitled'',
       ''Duration: '' @ format_duration (get_or (elapsed_time a) 0)]
      @ opt_line (\<lambda>v. \<not> f_is_zero F v) (distance a) ''Distance: '' (format_distance F)
      @ p
      @ opt_line (\<lambda>v. \<not> f_is_zero F v) (average_heartrate a) ''Average Heart Rate: ''
          (\<lambda>v. f_fmt F 0 v @ '' bpm'')
      @ opt_line (\<lambda>v. \<not> f_is_zero F v) (max_heartrate a) ''Max Heart Rate: ''
          (\<lambda>v. f_fmt F 0 v @ '' bpm'')
      @ opt_line (\<lambda>v. \<not> f_is_zero F v) (calories a) ''Calories: '' (f_fmt F 0)
      @ opt_line (\<lambda>v. \<not> f_is_zero F v) (total_elevation_gain a) ''Elevation Gain: ''
          (\<lambda>v. f_fmt F 0 (f_mul F v (f_const F 328084 5)) @ '' ft'')
      @ opt_line (\<lambda>d. d \<noteq> []) (description a) ''Original Description: '' (\<lambda>d. d)"
    using assms by (simp add: summary_lines_eq)
  show ?thesis
    apply (subst ls)
    apply (simp only: map_append hd3)
    apply (intro list_emb_append_mono subseq_order.order_refl)
    using opt_line_subseq [of "''Distance''" _ _ "'' ''"]
      opt_line_subseq [of "''Average Heart Rate''" _ _ "'' ''"]
      opt_line_subseq [of "''Max Heart Rate''" _ _ "'' ''"]
      opt_line_subseq [of "''Calories''" _ _ "'' ''"]
      opt_line_subseq [of "''Elevation Gain''" _ _ "'' ''"]
      opt_line_subseq [of "''Original Description''" _ _ "'' ''"]
    by simp_all
qed

lemma summary_lines_labels:
  assumes "summary_lines F a = Inr ls"
  shows "subseq (map line_label ls) summary_labels"
proof -
  obtain p where p: "pace_lines F a = Inr p"
    using assms by (cases "pace_lines F a") (simp_all add: summary_lines_eq)
  have "subseq (map line_label p) [''Pace'']"
    by (simp add: pace_lines_labels [OF p])
  then have "subseq
      ([''Activity Type'', ''Original Title'', ''Duration''] @ [''Distance'']
         @ map line_label p @ [''Average Heart Rate''] @ [''Max Heart Rate'']
         @ [''Calories''] @ [''Elevation Gain''] @ [''Original Description''])
      summary_labels"
    unfolding summary_labels_split
    by (intro list_emb_append_mono subseq_order.order_refl)
  with summary_lines_labels_pace [OF assms p] show ?thesis
    by (rule subseq_order.order_trans)
qed

lemma summary_lines_no_pace:
  assumes "\<not> is_run a"
  shows "\<exists>ls. summary_lines F a = Inr ls \<and> ''Pace'' \<notin> set (map line_label ls)"
proof -
  have p: "pace_lines F a = Inr []"
    using assms by (rule pace_lines_not_run)
  obtain ls where ls: "summary_lines F a = Inr ls"
    by (simp add: summary_lines_eq p)
  have "set (map line_label ls) \<subseteq>
      set ([''Activity Type'', ''Original Title'', ''Duration''] @ [''Distance'']
         @ map line_label [] @ [''Average Heart Rate''] @ [''Max Heart Rate'']
         @ [''Calories''] @ [''Elevation Gain''] @ [''Original Description''])"
    using summary_lines_labels_pace [OF ls p] by (rule subseq_set_mono)
  then have "''Pace'' \<notin> set (map line_label ls)"
    by auto
  with ls show ?thesis
    by blast
qed

text \<open>
  C3 (amended). The summary is the newline-joined list of lines, in the fixed order of
  \<open>summary_labels\<close>. The type, title and duration lines are always there, with the defaults
  \<open>Workout\<close>, \<open>Untitled\<close> and 0 seconds for an absent member; each of the others (distance,
  pace, average and maximum heart rate, calories, elevation, description) is there only
  when its member is present and non-zero (non-empty for the description), the pace line
  only when moreover the type is \<open>Run\<close> or \<open>VirtualRun\<close>. A summary has no pace line for
  another type, whatever the speed. The one way to fail is \<open>format_pace\<close> raising.
\<close>

theorem build_workout_summary_lines:
  "build_workout_summary F a =
     (case pace_lines F a of
        Inl e \<Rightarrow> Inl e
      | Inr pace \<Rightarrow>
          Inr (join [CHR 0x0A]
               ([''Activity Type: '' @ get_or (act_type a) ''Workout'',
                 ''Original Title: '' @ get_or (act_name a) ''Untitled'',
                 ''Duration: '' @ format_duration (get_or (elapsed_time a) 0)]
                @ opt_line (\<lambda>v. \<not> f_is_zero F v) (distance a) ''Distance: '' (format_distance F)
                @ pace
                @ opt_line (\<lambda>v. \<not> f_is_zero F v) (average_heartrate a) ''Average Heart Rate: ''
                    (\<lambda>v. f_fmt F 0 v @ '' bpm'')
                @ opt_line (\<lambda>v. \<not> f_is_zero F v) (max_heartrate a) ''Max Heart Rate: ''
                    (\<lambda>v. f_fmt F 0 v @ '' bpm'')
                @ opt_line (\<lambda>v. \<not> f_is_zero F v) (calories a) ''Calories: '' (f_fmt F 0)
                @ opt_line (\<lambda>v. \<not> f_is_zero F v) (total_elevation_gain a) ''Elevation Gain: ''
                    (\<lambda>v. f_fmt F 0 (f_mul F v (f_const F 328084 5)) @ '' ft'')
                @ opt_line (\<lambda>d. d \<noteq> []) (description a) ''Original Description: '' (\<lambda>d. d))))
   \<and> (\<forall>ls. summary_lines F a = Inr ls \<longrightarrow> subseq (map line_label ls) summary_labels)
   \<and> (\<not> is_run a \<longrightarrow>
        (\<exists>ls. summary_lines F a = Inr ls \<and> ''Pace'' \<notin> set (map line_label ls)))"
proof (intro conjI allI impI)
  show "build_workout_summary F a =
     (case pace_lines F a of
        Inl e \<Rightarrow> Inl e
      | Inr pace \<Rightarrow>
          Inr (join [CHR 0x0A]
               ([''Activity Type: '' @ get_or (act_type a) ''Workout'',
                 ''Original Title: '' @ get_or (act_name a) ''Untitled'',
                 ''Duration: '' @ format_duration (get_or (elapsed_time a) 0)]
                @ opt_line (\<lambda>v. \<not> f_is_zero F v) (distance a) ''Distance: '' (format_distance F)
                @ pace
                @ opt_line (\<lambda>v. \<not> f_is_zero F v) (average_heartrate a) ''Average Heart Rate: ''
                    (\<lambda>v. f_fmt F 0 v @ '' bpm'')
                @ opt_line (\<lambda>v. \<not> f_is_zero F v) (max_heartrate a) ''Max Heart Rate: ''
                    (\<lambda>v. f_fmt F 0 v @ '' bpm'')
                @ opt_line (\<lambda>v. \<not> f_is_zero F v) (calories a) ''Calories: '' (f_fmt F 0)
                @ opt_line (\<lambda>v. \<not> f_is_zero F v) (total_elevation_gain a) ''Elevation Gain: ''
                    (\<lambda>v. f_fmt F 0 (f_mul F v (f_const F 328084 5)) @ '' ft'')
                @ opt_line (\<lambda>d. d \<noteq> []) (description a) ''Original Description: '' (\<lambda>d. d))))"
    unfolding build_workout_summary_def summary_lines_eq
    by (cases "pace_lines F a") simp_all
next
  fix ls assume "summary_lines F a = Inr ls"
  then show "subseq (map line_label ls) summary_labels"
    by (rule summary_lines_labels)
next
  assume "\<not> is_run a"
  then show "\<exists>ls. summary_lines F a = Inr ls \<and> ''Pace'' \<notin> set (map line_label ls)"
    by (rule summary_lines_no_pace)
qed

text \<open>The summary of a run and of the same activity as a ride, which has no pace line.\<close>

theorem build_workout_summary_lines_witness:
  "build_workout_summary exact_ops morning_run =
     Inr ''Activity Type: Run\<newline>Original Title: Morning Run\<newline>Duration: 1h 1m 1s\<newline>Distance: 6.21 mi\<newline>Pace: 10:00 /mi\<newline>Average Heart Rate: 150 bpm\<newline>Elevation Gain: 328 ft''
   \<and> build_workout_summary exact_ops (morning_run\<lparr>act_type := Some ''Ride''\<rparr>) =
     Inr ''Activity Type: Ride\<newline>Original Title: Morning Run\<newline>Duration: 1h 1m 1s\<newline>Distance: 6.21 mi\<newline>Average Heart Rate: 150 bpm\<newline>Elevation Gain: 328 ft''
   \<and> \<not> is_run (morning_run\<lparr>act_type := Some ''Ride''\<rparr>)"
proof -
  have "\<not> is_run (morning_run\<lparr>act_type := Some ''Ride''\<rparr>)"
    by (simp add: is_run_def)
  moreover have "build_workout_summary exact_ops morning_run =
     Inr ''Activity Type: Run\<newline>Original Title: Morning Run\<newline>Duration: 1h 1m 1s\<newline>Distance: 6.21 mi\<newline>Pace: 10:00 /mi\<newline>Average Heart Rate: 150 bpm\<newline>Elevation Gain: 328 ft''"
    by code_simp
  moreover have "build_workout_summary exact_ops (morning_run\<lparr>act_type := Some ''Ride''\<rparr>) =
     Inr ''Activity Type: Ride\<newline>Original Title: Morning Run\<newline>Duration: 1h 1m 1s\<newline>Distance: 6.21 mi\<newline>Average Heart Rate: 150 bpm\<newline>Elevation Gain: 328 ft''"
    by code_simp
  ultimately show ?thesis
    using build_workout_summary_lines [of exact_ops "morning_run\<lparr>act_type := Some ''Ride''\<rparr>"]
    by blast
qed

text \<open>
  C3 as stated fails on an activity without members: its summary holds the type, title
  and duration lines although none of these members is present.
\<close>

theorem summary_of_empty_activity:
  "act_type empty_obj = None \<and> act_name empty_obj = None \<and> elapsed_time empty_obj = None
   \<and> build_workout_summary exact_ops empty_obj =
       Inr ''Activity Type: Workout\<newline>Original Title: Untitled\<newline>Duration: 0s''"
  by code_simp

section \<open>Properties of the request wrapper\<close>

lemma http_sends_append [simp]: "http_sends (xs @ ys) = http_sends xs @ http_sends ys"
  by (induction xs) (auto split: event.splits)
lemma llm_calls_append [simp]: "llm_calls (xs @ ys) = llm_calls xs @ llm_calls ys"
  by (induction xs) (auto split: event.splits)
lemma api_calls_append [simp]: "api_calls (xs @ ys) = api_calls xs @ api_calls ys"
  by (induction xs) (auto split: event.splits)

lemma py_print_fields [simp]:
  "trace (py_print s st) = trace st"
  "dotenv (py_print s st) = dotenv st"
  "stdout (py_print s st) = stdout st @ [s]"
  "STRAVA_CLIENT_ID (py_print s st) = STRAVA_CLIENT_ID st"
  "STRAVA_CLIENT_SECRET (py_print s st) = STRAVA_CLIENT_SECRET st"
  "STRAVA_ACCESS_TOKEN (py_print s st) = STRAVA_ACCESS_TOKEN st"
  "STRAVA_REFRESH_TOKEN (py_print s st) = STRAVA_REFRESH_TOKEN st"
  "ANTHROPIC_API_KEY (py_print s st) = ANTHROPIC_API_KEY st"
  by (simp_all add: py_print_def)

lemma set_key_fields [simp]:
  "trace (set_key k v st) = trace st"
  "dotenv (set_key k v st) = AList.update k v (dotenv st)"
  "stdout (set_key k v st) = stdout st"
  "STRAVA_CLIENT_ID (set_key k v st) = STRAVA_CLIENT_ID st"
  "STRAVA_CLIENT_SECRET (set_key k v st) = STRAVA_CLIENT_SECRET st"
  "STRAVA_ACCESS_TOKEN (set_key k v st) = STRAVA_ACCESS_TOKEN st"
  "STRAVA_REFRESH_TOKEN (set_key k v st) = STRAVA_REFRESH_TOKEN st"
  "ANTHROPIC_API_KEY (set_key k v st) = ANTHROPIC_API_KEY st"
  by (simp_all add: set_key_def)

lemma refresh_request_frame:
  "STRAVA_CLIENT_ID st' = STRAVA_CLIENT_ID st \<Longrightarrow>
   STRAVA_CLIENT_SECRET st' = STRAVA_CLIENT_SECRET st \<Longrightarrow>
   STRAVA_REFRESH_TOKEN st' = STRAVA_REFRESH_TOKEN st \<Longrightarrow>
   refresh_request st' = refresh_request st"
  by (simp add: refresh_request_def)

lemma refresh_access_token_ok:
  "token_pair (server W (length (http_sends (trace st))) (refresh_request st)) = Some (a, r) \<Longrightarrow>
   refresh_access_token W st =
     (Inr a, set_key ''STRAVA_REFRESH_TOKEN'' r (set_key ''STRAVA_ACCESS_TOKEN'' a
               (st\<lparr>trace := trace st @ [HttpSend (refresh_request st)]\<rparr>)))"
  by (auto simp add: refresh_access_token_def http_send_def token_pair_def raise_for_status_def
      json_of_def subscript_def Let_def split: option.splits json.splits if_splits)

lemma refresh_access_token_fails:
  "token_pair (server W (length (http_sends (trace st))) (refresh_request st)) = None \<Longrightarrow>
   \<exists>e st'. refresh_access_token W st = (Inl e, st')
     \<and> trace st' = trace st @ [HttpSend (refresh_request st)]
     \<and> STRAVA_ACCESS_TOKEN st' = STRAVA_ACCESS_TOKEN st"
  by (auto simp add: refresh_access_token_def http_send_def token_pair_def raise_for_status_def
      json_of_def subscript_def Let_def split: option.splits json.splits if_splits)


lemma finish_eq:
  "finish response st =
     ((if 400 \<le> status_code response \<and> status_code response < 600
       then Inl (HTTPError (status_code response)) else json_of response), st)"
  by (simp add: finish_def raise_for_status_def)

text \<open>
  C1 (amended). When the first response is 401, \<open>strava_request\<close> posts exactly one refresh
  (\<open>grant_type=refresh_token\<close> with the refresh token of the globals). If the refresh
  fails (a status from 400 to 599, or a body without both tokens) the failure propagates
  and the request is not retried. If it succeeds, both tokens are written to the \<open>.env\<close>
  file, the access token global is replaced, and the request is retried exactly once
  under the new access token; a status from 400 to 599 on the retry, a second 401
  included, propagates as \<open>HTTPError\<close> with no further refresh or retry, and any other
  status returns the body.
\<close>

theorem strava_request_refresh_once:
  assumes "status_code (server W (length (http_sends (trace st)))
              (api_request (STRAVA_ACCESS_TOKEN st) verb endpoint kwargs)) = 401"
  shows "case strava_request W verb endpoint kwargs st of (r, st') \<Rightarrow>
     (let k = length (http_sends (trace st));
          first = api_request (STRAVA_ACCESS_TOKEN st) verb endpoint kwargs;
          reply = server W (Suc k) (refresh_request st) in
      req_payload (refresh_request st) =
        FormData [(''client_id'', STRAVA_CLIENT_ID st),
                  (''client_secret'', STRAVA_CLIENT_SECRET st),
                  (''grant_type'', Some ''refresh_token''),
                  (''refresh_token'', STRAVA_REFRESH_TOKEN st)] \<and>
      (case token_pair reply of
         None \<Rightarrow>
           http_sends (trace st') = http_sends (trace st) @ [first, refresh_request st]
           \<and> (\<exists>e. r = Inl e)
       | Some (new_access, new_refresh) \<Rightarrow>
           (let retry = api_request (Some new_access) verb endpoint kwargs;
                reply2 = server W (Suc (Suc k)) retry in
            http_sends (trace st') = http_sends (trace st) @ [first, refresh_request st, retry]
            \<and> dotenv st' = AList.update ''STRAVA_REFRESH_TOKEN'' new_refresh
                             (AList.update ''STRAVA_ACCESS_TOKEN'' new_access (dotenv st))
            \<and> STRAVA_ACCESS_TOKEN st' = Some new_access
            \<and> r = (if 400 \<le> status_code reply2 \<and> status_code reply2 < 600
                   then Inl (HTTPError (status_code reply2)) else json_of reply2))))"
proof -
  let ?k = "length (http_sends (trace st))"
  let ?first = "api_request (STRAVA_ACCESS_TOKEN st) verb endpoint kwargs"
  let ?st1 = "py_print ''Token expired, refreshing...''
      (st\<lparr>trace := trace st @ [ApiCall verb endpoint kwargs, HttpSend ?first]\<rparr>)"
  have rr: "refresh_request ?st1 = refresh_request st"
    by (simp add: refresh_request_def)
  have k1: "length (http_sends (trace ?st1)) = Suc ?k"
    by simp
  have unfold: "strava_request W verb endpoint kwargs st =
      (case refresh_access_token W ?st1 of
         (Inl e, st2) \<Rightarrow> (Inl e, st2)
       | (Inr new_access, st2) \<Rightarrow>
           (let st3 = st2\<lparr>STRAVA_ACCESS_TOKEN := Some new_access\<rparr> in
            case http_send W (api_request (STRAVA_ACCESS_TOKEN st3) verb endpoint kwargs) st3 of
              (response2, st4) \<Rightarrow> finish response2 st4))"
    using assms by (simp add: strava_request_def http_send_def Let_def)
  have payload: "req_payload (refresh_request st) =
        FormData [(''client_id'', STRAVA_CLIENT_ID st),
                  (''client_secret'', STRAVA_CLIENT_SECRET st),
                  (''grant_type'', Some ''refresh_token''),
                  (''refresh_token'', STRAVA_REFRESH_TOKEN st)]"
    by (simp add: refresh_request_def)
  show ?thesis
  proof (cases "token_pair (server W (Suc ?k) (refresh_request st))")
    case None
    then obtain e st' where "refresh_access_token W ?st1 = (Inl e, st')"
        "trace st' = trace ?st1 @ [HttpSend (refresh_request ?st1)]"
      using refresh_access_token_fails [of W ?st1] unfolding rr k1 by blast
    then show ?thesis
      using None payload by (simp add: unfold rr Let_def)
  next
    case (Some pair)
    obtain a r where pair: "pair = (a, r)"
      by (cases pair)
    have "refresh_access_token W ?st1 =
        (Inr a, set_key ''STRAVA_REFRESH_TOKEN'' r (set_key ''STRAVA_ACCESS_TOKEN'' a
               (?st1\<lparr>trace := trace ?st1 @ [HttpSend (refresh_request ?st1)]\<rparr>)))"
      using Some unfolding pair by (intro refresh_access_token_ok) (simp only: rr k1)
    then show ?thesis
      using Some payload
      by (simp add: unfold rr pair Let_def http_send_def finish_eq)
  qed
qed

text \<open>
  A run where the service answers 401 again after the refresh: three requests, the
  failure of the retry returned.
\<close>

theorem strava_request_refresh_once_witness:
  "status_code (server stale_world (length (http_sends (trace start_state)))
      (api_request (STRAVA_ACCESS_TOKEN start_state) ''GET'' ''/athlete/activities'' NoPayload)) = 401
   \<and> fst (strava_request stale_world ''GET'' ''/athlete/activities'' NoPayload start_state)
       = Inl (HTTPError 401)
   \<and> http_sends (trace (snd (strava_request stale_world ''GET'' ''/athlete/activities''
                                NoPayload start_state)))
       = [api_request (Some ''old-access'') ''GET'' ''/athlete/activities'' NoPayload,
          refresh_request start_state,
          api_request (Some ''new-access'') ''GET'' ''/athlete/activities'' NoPayload]
   \<and> dotenv (snd (strava_request stale_world ''GET'' ''/athlete/activities'' NoPayload
                      start_state))
       = [(''STRAVA_ACCESS_TOKEN'', ''new-access''), (''STRAVA_REFRESH_TOKEN'', ''new-refresh'')]"
proof -
  have first: "status_code (server stale_world (length (http_sends (trace start_state)))
      (api_request (STRAVA_ACCESS_TOKEN start_state) ''GET'' ''/athlete/activities'' NoPayload)) = 401"
    by code_simp
  have pair: "token_pair (server stale_world (Suc 0)
      (refresh_request start_state)) = Some (''new-access'', ''new-refresh'')"
    by code_simp
  have retry: "status_code (server stale_world (Suc (Suc 0))
      (api_request (Some ''new-access'') ''GET'' ''/athlete/activities'' NoPayload)) = 401"
    by code_simp
  have st: "http_sends (trace start_state) = []" "STRAVA_ACCESS_TOKEN start_state = Some ''old-access''"
    "dotenv start_state = [(''STRAVA_ACCESS_TOKEN'', ''old-access''), (''STRAVA_REFRESH_TOKEN'', ''old-refresh'')]"
    by (simp_all add: start_state_def)
  show ?thesis
    using strava_request_refresh_once [OF first] first
    by (simp add: pair retry st Let_def split: prod.splits)
qed

text \<open>
  C1 as stated fails where the token endpoint refuses the refresh: the first response is
  401 and the request is not retried. It also fails where the retry is answered with a
  status outside 2xx that \<open>raise_for_status\<close> lets through: the 302 is no failure, its body
  is returned.
\<close>

theorem strava_request_refresh_denied:
  "status_code (server refresh_denied_world 0
      (api_request (Some ''old-access'') ''GET'' ''/athlete/activities'' NoPayload)) = 401
   \<and> fst (strava_request refresh_denied_world ''GET'' ''/athlete/activities'' NoPayload start_state)
       = Inl (HTTPError 400)
   \<and> http_sends (trace (snd (strava_request refresh_denied_world ''GET'' ''/athlete/activities''
                                NoPayload start_state)))
       = [api_request (Some ''old-access'') ''GET'' ''/athlete/activities'' NoPayload,
          refresh_request start_state]
   \<and> status_code (server redirect_world 2
      (api_request (Some ''new-access'') ''GET'' ''/athlete/activities'' NoPayload)) = 302
   \<and> fst (strava_request redirect_world ''GET'' ''/athlete/activities'' NoPayload start_state)
       = Inr (JArray [])"
  by code_simp

section \<open>What each function adds to the trace\<close>

lemma same_credentials_refl [simp]: "same_credentials st st"
  by (simp add: same_credentials_def)

lemma same_credentials_trans:
  "same_credentials st st1 \<Longrightarrow> same_credentials st1 st2 \<Longrightarrow> same_credentials st st2"
  by (simp add: same_credentials_def)

lemma same_credentials_print [simp]:
  "same_credentials st (py_print s st') \<longleftrightarrow> same_credentials st st'"
  "same_credentials (py_print s st) st' \<longleftrightarrow> same_credentials st st'"
  by (simp_all add: same_credentials_def)

lemma same_credentials_request:
  "same_credentials st st' \<Longrightarrow> refresh_request st' = refresh_request st"
  by (simp add: same_credentials_def refresh_request_def)

lemma refresh_access_token_effect:
  assumes "refresh_access_token W st = (r, st')"
  shows "same_credentials st st' \<and> trace st' = trace st @ [HttpSend (refresh_request st)]
         \<and> STRAVA_ACCESS_TOKEN st' = STRAVA_ACCESS_TOKEN st"
  using assms
  by (auto simp add: refresh_access_token_def http_send_def same_credentials_def Let_def
      split: sum.splits)

lemma finish_state: "finish response st = (r, st') \<Longrightarrow> st' = st"
  by (auto simp: finish_eq)

lemma carries_api_request [simp]: "carries v ep p (api_request tok v ep p)"
  by (simp add: carries_def api_request_def)

lemma refresh_request_url [simp]: "req_url (refresh_request st) = token_url"
  by (simp add: refresh_request_def)

lemma strava_request_effect:
  assumes "strava_request W v ep p st = (r, st')"
  shows "same_credentials st st' \<and>
         (\<exists>hs. trace st' = trace st @ ApiCall v ep p # map HttpSend hs
            \<and> list_all (\<lambda>q. q = refresh_request st \<or> (\<exists>tok. q = api_request tok v ep p)) hs
            \<and> wrapper_sends v ep p hs)"
proof -
  let ?first = "api_request (STRAVA_ACCESS_TOKEN st) v ep p"
  let ?st1 = "st\<lparr>trace := trace st @ [ApiCall v ep p, HttpSend ?first]\<rparr>"
  let ?resp = "server W (length (http_sends (trace st))) ?first"
  show ?thesis
  proof (cases "status_code ?resp = 401")
    case False
    then have "strava_request W v ep p st = finish ?resp ?st1"
      by (simp add: strava_request_def http_send_def Let_def)
    with assms have "st' = ?st1"
      by (simp add: finish_state)
    then show ?thesis
      by (auto simp: same_credentials_def intro!: exI [of _ "[?first]"])
  next
    case True
    let ?st1p = "py_print ''Token expired, refreshing...'' ?st1"
    have unfold: "strava_request W v ep p st =
      (case refresh_access_token W ?st1p of
         (Inl e, st2) \<Rightarrow> (Inl e, st2)
       | (Inr new_access, st2) \<Rightarrow>
           (let st3 = st2\<lparr>STRAVA_ACCESS_TOKEN := Some new_access\<rparr> in
            case http_send W (api_request (STRAVA_ACCESS_TOKEN st3) v ep p) st3 of
              (response2, st4) \<Rightarrow> finish response2 st4))"
      using True by (simp add: strava_request_def http_send_def Let_def)
    obtain r2 st2 where ref: "refresh_access_token W ?st1p = (r2, st2)"
      by (cases "refresh_access_token W ?st1p")
    have rr: "refresh_request ?st1p = refresh_request st"
      by (simp add: refresh_request_def)
    from refresh_access_token_effect [OF ref]
    have st2: "same_credentials st st2"
      "trace st2 = trace st @ [ApiCall v ep p, HttpSend ?first, HttpSend (refresh_request st)]"
      by (simp_all add: rr same_credentials_def)
    show ?thesis
    proof (cases r2)
      case (Inl e)
      with assms unfold ref have "st' = st2"
        by simp
      with st2 show ?thesis
        by (auto intro!: exI [of _ "[?first, refresh_request st]"])
    next
      case (Inr a)
      let ?retry = "api_request (Some a) v ep p"
      let ?st4 = "st2\<lparr>STRAVA_ACCESS_TOKEN := Some a, trace := trace st2 @ [HttpSend ?retry]\<rparr>"
      from assms unfold ref Inr have "st' = ?st4"
        by (auto simp: Let_def http_send_def dest: finish_state)
      with st2 show ?thesis
        by (auto simp: same_credentials_def intro!: exI [of _ "[?first, refresh_request st, ?retry]"])
    qed
  qed
qed


lemma haddockify_eq:
  "haddockify W s st =
     ((case claude W (length (llm_calls (trace st))) s of
         APIFailure msg \<Rightarrow> Inl (APIError msg)
       | Message content \<Rightarrow>
           (case content of [] \<Rightarrow> Inl IndexError | t # ts \<Rightarrow> Inr (parse_response t))),
      st\<lparr>trace := trace st @ [LlmCall s]\<rparr>)"
  by (simp add: haddockify_def Let_def split: completion.splits list.splits)

lemma same_credentials_trace [simp]:
  "same_credentials st (st'\<lparr>trace := tr\<rparr>) \<longleftrightarrow> same_credentials st st'"
  by (simp add: same_credentials_def)

lemma print_activity_fields [simp]:
  "trace (print_activity a i st) = trace st"
  "same_credentials st0 (print_activity a i st) \<longleftrightarrow> same_credentials st0 st"
  "refresh_request (print_activity a i st) = refresh_request st"
  by (simp_all add: print_activity_def Let_def refresh_request_def same_credentials_def)

lemma print_version_fields [simp]:
  "trace (print_version t d st) = trace st"
  "same_credentials st0 (print_version t d st) \<longleftrightarrow> same_credentials st0 st"
  "refresh_request (print_version t d st) = refresh_request st"
  by (simp_all add: print_version_def Let_def refresh_request_def same_credentials_def)

lemma refresh_request_print [simp]: "refresh_request (py_print s st) = refresh_request st"
  by (simp add: refresh_request_def)

lemma refresh_request_trace [simp]: "refresh_request (st\<lparr>trace := tr\<rparr>) = refresh_request st"
  by (simp add: refresh_request_def)

lemma process_activity_effect:
  assumes "process_activity F W args x st = (r, st')"
  shows "same_credentials st st' \<and>
    (\<exists>new. trace st' = trace st @ new \<and>
       ((new = [] \<and> (\<exists>e. r = Inl e))
        \<or> (\<exists>s. new = [LlmCall s] \<and> \<not> has_text (claude W (length (llm_calls (trace st))) s)
                 \<and> r \<noteq> Inr Continue)
        \<or> (\<exists>s. new = [LlmCall s] \<and> has_text (claude W (length (llm_calls (trace st))) s)
                 \<and> arg_dry_run args \<and> r = Inr Continue)
        \<or> (\<exists>s u hs. new = LlmCall s # ApiCall ''PUT'' (fst u) (snd u) # map HttpSend hs
                 \<and> has_text (claude W (length (llm_calls (trace st))) s)
                 \<and> \<not> arg_dry_run args \<and> r \<noteq> Inr Return
                 \<and> expected_update F W (length (llm_calls (trace st))) x = Some u
                 \<and> list_all (\<lambda>q. q = refresh_request st
                                 \<or> (\<exists>tok. q = api_request tok ''PUT'' (fst u) (snd u))) hs
                 \<and> update_sends u hs)))"
proof (cases x)
  case JNone
  with assms show ?thesis by (auto simp: process_activity_def)
next
  case (JArray xs)
  with assms show ?thesis by (auto simp: process_activity_def)
next
  case (JObject a)
  show ?thesis
  proof (cases "act_id a")
    case None
    with assms JObject show ?thesis by (auto simp: process_activity_def)
  next
    case (Some i)
    note id = Some
    show ?thesis
    proof (cases "build_workout_summary F a")
      case (Inl e)
      with assms JObject id have "r = Inl e" "st' = print_activity a i st"
        by (simp_all add: process_activity_def)
      then show ?thesis by simp
    next
      case (Inr s)
      note summary = Inr
      let ?k = "length (llm_calls (trace st))"
      let ?st6 = "(print_activity a i st)\<lparr>trace := trace st @ [LlmCall s]\<rparr>"
      show ?thesis
      proof (cases "claude W ?k s")
        case (APIFailure msg)
        with assms JObject id summary have "r = Inr Return"
            "st' = py_print (''Error calling Claude API: '' @ msg) ?st6"
          by (simp_all add: process_activity_def haddockify_eq)
        then show ?thesis
          using APIFailure by simp
      next
        case (Message content)
        show ?thesis
        proof (cases content)
          case Nil
          with assms JObject id summary Message have "r = Inl IndexError" "st' = ?st6"
            by (simp_all add: process_activity_def haddockify_eq)
          then show ?thesis
            using Message Nil by simp
        next
          case (Cons t ts)
          obtain title descr where parsed: "parse_response t = (title, descr)"
            by (cases "parse_response t")
          have content: "has_text (claude W ?k s)"
            using Message Cons by simp
          show ?thesis
          proof (cases "arg_dry_run args")
            case True
            with assms JObject id summary Message Cons parsed
            have "r = Inr Continue"
              "st' = py_print ''\<newline>[DRY RUN - No changes made to Strava]''
                       (print_version title descr ?st6)"
              by (simp_all add: process_activity_def haddockify_eq)
            then show ?thesis
              using content True by simp
          next
            case False
            let ?u = "(''/activities/'' @ str_int i,
                       JsonBody [(''name'', title), (''description'', descr)])"
            let ?st12u = "py_print ''\<newline>Updating Strava...'' (print_version title descr ?st6)"
            obtain r13 st13 where upd: "update_activity W i title descr ?st12u = (r13, st13)"
              by (cases "update_activity W i title descr ?st12u")
            from strava_request_effect [OF upd [unfolded update_activity_def]]
            obtain hs where st13: "same_credentials ?st12u st13"
              "trace st13 = trace ?st12u @ ApiCall ''PUT'' (fst ?u) (snd ?u) # map HttpSend hs"
              "list_all (\<lambda>q. q = refresh_request ?st12u
                          \<or> (\<exists>tok. q = api_request tok ''PUT'' (fst ?u) (snd ?u))) hs"
              "update_sends ?u hs"
              unfolding update_sends_def by auto
            have exp: "expected_update F W ?k x = Some ?u"
              by (simp add: expected_update_def generated_def JObject id summary Message Cons parsed)
            have "same_credentials st ?st12u"
              by simp
            then have creds: "same_credentials st st13"
              using st13(1) by (rule same_credentials_trans)
            have res: "r \<noteq> Inr Return \<and> trace st' = trace st13 \<and> same_credentials st st'"
              using assms JObject id summary Message Cons parsed False upd creds
              by (auto simp: process_activity_def haddockify_eq split: sum.splits)
            have tr: "trace st' =
                trace st @ LlmCall s # ApiCall ''PUT'' (fst ?u) (snd ?u) # map HttpSend hs"
              using res st13(2) by simp
            have hs: "list_all (\<lambda>q. q = refresh_request st
                          \<or> (\<exists>tok. q = api_request tok ''PUT'' (fst ?u) (snd ?u))) hs"
              using st13(3) by simp
            show ?thesis
              using res tr hs content False exp st13(4) by blast
          qed
        qed
      qed
    qed
  qed
qed

lemma api_request_not_token [simp]: "req_url (api_request tok v ep p) \<noteq> token_url"
  by (simp add: api_request_def STRAVA_API_BASE_def token_url_def)

lemma refresh_posts_append [simp]:
  "refresh_posts (xs @ ys) = refresh_posts xs @ refresh_posts ys"
  by (simp add: refresh_posts_def)

lemma update_calls_append [simp]:
  "update_calls (xs @ ys) = update_calls xs @ update_calls ys"
  by (simp add: update_calls_def)

lemma trace_of_sends [simp]:
  "http_sends (map HttpSend hs) = hs"
  "llm_calls (map HttpSend hs) = []"
  "api_calls (map HttpSend hs) = []"
  by (induction hs) simp_all

lemma refresh_posts_sends:
  "list_all (\<lambda>q. q = rq \<or> (\<exists>tok. q = api_request tok v ep p)) hs \<Longrightarrow>
   \<forall>q\<in>set (refresh_posts (map HttpSend hs)). q = rq"
  by (auto simp: refresh_posts_def list_all_iff)

text \<open>A relation between the states before and after that holds of every step holds of the loop.\<close>

lemma for_activities_steps:
  assumes run: "for_activities F W args xs st = (r, st')"
    and base: "\<And>s. Q s s"
    and step: "\<And>x s r1 s1. process_activity F W args x s = (r1, s1) \<Longrightarrow> Q s s1"
    and trans: "\<And>a b c. Q a b \<Longrightarrow> Q b c \<Longrightarrow> Q a c"
  shows "Q st st'"
  using run
proof (induction xs arbitrary: st)
  case Nil
  then show ?case by (simp add: base)
next
  case (Cons x xs)
  obtain r1 s1 where p: "process_activity F W args x st = (r1, s1)"
    by (cases "process_activity F W args x st")
  show ?case
  proof (cases r1)
    case (Inl e)
    with Cons.prems p have "st' = s1" by simp
    with step [OF p] show ?thesis by simp
  next
    case (Inr ex)
    show ?thesis
    proof (cases ex)
      case Return
      with Cons.prems p Inr have "st' = s1" by simp
      with step [OF p] show ?thesis by simp
    next
      case Continue
      with Cons.prems p Inr have "for_activities F W args xs s1 = (r, st')" by simp
      then have "Q s1 st'" by (rule Cons.IH)
      with step [OF p] show ?thesis by (rule trans)
    qed
  qed
qed

lemma refreshes_as_refl: "refreshes_as st st"
  by (simp add: refreshes_as_def refresh_posts_def)

lemma refreshes_as_trans:
  assumes "refreshes_as a b" "refreshes_as b c"
  shows "refreshes_as a c"
proof -
  from assms obtain n1 n2 where
    ab: "same_credentials a b" "trace b = trace a @ n1" "\<forall>q\<in>set (refresh_posts n1). q = refresh_request a"
    and bc: "same_credentials b c" "trace c = trace b @ n2" "\<forall>q\<in>set (refresh_posts n2). q = refresh_request b"
    unfolding refreshes_as_def by blast
  have "refresh_request b = refresh_request a"
    using ab(1) by (rule same_credentials_request)
  with ab bc have "trace c = trace a @ (n1 @ n2)" "\<forall>q\<in>set (refresh_posts (n1 @ n2)). q = refresh_request a"
    by auto
  moreover have "same_credentials a c"
    using ab(1) bc(1) by (rule same_credentials_trans)
  ultimately show ?thesis
    unfolding refreshes_as_def by blast
qed

lemma strava_request_refreshes:
  assumes "strava_request W v ep p st = (r, st')"
  shows "refreshes_as st st'"
proof -
  from strava_request_effect [OF assms] obtain hs where
    "same_credentials st st'" "trace st' = trace st @ ApiCall v ep p # map HttpSend hs"
    "list_all (\<lambda>q. q = refresh_request st \<or> (\<exists>tok. q = api_request tok v ep p)) hs"
    by blast
  then show ?thesis
    unfolding refreshes_as_def
    by (intro conjI exI [of _ "ApiCall v ep p # map HttpSend hs"])
       (auto simp: refresh_posts_def list_all_iff)
qed

lemma process_activity_refreshes:
  assumes "process_activity F W args x st = (r, st')"
  shows "refreshes_as st st'"
proof -
  from process_activity_effect [OF assms] obtain new where
    c: "same_credentials st st'" and t: "trace st' = trace st @ new"
    and shape: "new = [] \<or> (\<exists>s. new = [LlmCall s])
       \<or> (\<exists>s u hs. new = LlmCall s # ApiCall ''PUT'' (fst u) (snd u) # map HttpSend hs
             \<and> list_all (\<lambda>q. q = refresh_request st
                            \<or> (\<exists>tok. q = api_request tok ''PUT'' (fst u) (snd u))) hs)"
    by blast
  from shape have "\<forall>q\<in>set (refresh_posts new). q = refresh_request st"
    by (auto simp: refresh_posts_def list_all_iff)
  with c t show ?thesis
    unfolding refreshes_as_def by blast
qed

lemma for_activities_refreshes:
  "for_activities F W args xs st = (r, st') \<Longrightarrow> refreshes_as st st'"
  by (erule for_activities_steps)
     (auto intro: refreshes_as_refl process_activity_refreshes refreshes_as_trans)

lemma refreshes_as_print [simp]:
  "refreshes_as st (py_print s st') \<longleftrightarrow> refreshes_as st st'"
  "refreshes_as (py_print s st) st' \<longleftrightarrow> refreshes_as st st'"
  by (simp_all add: refreshes_as_def)

lemma fetch_activities_request:
  "\<exists>ep p. \<forall>st. \<exists>k. fetch_activities W args st =
     (case strava_request W ''GET'' ep p st of
        (Inl e, st1) \<Rightarrow> (Inl e, st1)
      | (Inr j, st1) \<Rightarrow> (k j, st1))"
proof (cases "given (arg_activity args)")
  case True
  show ?thesis
    apply (rule exI [of _ "''/activities/'' @ str_int (get_or (arg_activity args) 0)"])
    apply (rule exI [of _ NoPayload])
    apply (rule allI)
    apply (rule exI [of _ "\<lambda>j. Inr (JArray [j])"])
    using True
    apply (simp add: fetch_activities_def get_activity_def split: prod.splits sum.splits)
    done
next
  case False
  note not_one = False
  show ?thesis
  proof (cases "given (arg_activities args)")
    case True
    show ?thesis
      apply (rule exI [of _ "''/athlete/activities''"])
      apply (rule exI [of _ "Params [(''per_page'', get_or (arg_activities args) 0)]"])
      apply (rule allI)
      apply (rule exI [of _ "\<lambda>j. Inr (if \<not> truthy j then JNone else j)"])
      using True not_one
      apply (simp add: fetch_activities_def get_last_N_activities_def split: prod.splits sum.splits)
      done
  next
    case False
    show ?thesis
      apply (rule exI [of _ "''/athlete/activities''"])
      apply (rule exI [of _ "Params [(''per_page'', 1)]"])
      apply (rule allI)
      apply (rule exI [of _ "\<lambda>j. case (if \<not> truthy j then Inr JNone else first_item j) of
                                     Inl e \<Rightarrow> Inl e | Inr a \<Rightarrow> Inr (JArray [a])"])
      using False not_one
      apply (simp add: fetch_activities_def get_latest_activity_def split: prod.splits sum.splits)
      done
  qed
qed

lemma fetch_activities_effect:
  assumes "fetch_activities W args st = (r, st')"
  shows "same_credentials st st' \<and>
         (\<exists>ep p hs. trace st' = trace st @ ApiCall ''GET'' ep p # map HttpSend hs
            \<and> list_all (\<lambda>q. q = refresh_request st \<or> (\<exists>tok. q = api_request tok ''GET'' ep p)) hs)"
proof -
  from fetch_activities_request [of W args] obtain ep p k where
    eq: "fetch_activities W args st =
     (case strava_request W ''GET'' ep p st of
        (Inl e, st1) \<Rightarrow> (Inl e, st1)
      | (Inr j, st1) \<Rightarrow> (k j, st1))"
    by blast
  obtain r1 st1 where s: "strava_request W ''GET'' ep p st = (r1, st1)"
    by (cases "strava_request W ''GET'' ep p st")
  with assms eq have "st' = st1"
    by (auto split: sum.splits)
  with strava_request_effect [OF s] show ?thesis
    by blast
qed

lemma fetch_activities_refreshes:
  assumes "fetch_activities W args st = (r, st')"
  shows "refreshes_as st st'"
proof -
  from fetch_activities_effect [OF assms] obtain ep p hs where
    "same_credentials st st'" "trace st' = trace st @ ApiCall ''GET'' ep p # map HttpSend hs"
    "list_all (\<lambda>q. q = refresh_request st \<or> (\<exists>tok. q = api_request tok ''GET'' ep p)) hs"
    by blast
  then show ?thesis
    unfolding refreshes_as_def
    by (intro conjI exI [of _ "ApiCall ''GET'' ep p # map HttpSend hs"])
       (auto simp: refresh_posts_def list_all_iff)
qed

text \<open>\<open>main\<close> by its phases: it stops at the checks, or fetches and then loops.\<close>

lemma main_phases:
  assumes "main F W args st = (r, st')"
  obtains (stopped) "trace st' = trace st" "same_credentials st st'" "r = Inr ()"
  | (fetched) r1 st1 where
      "fetch_activities W args (py_print ''Fetching activity from Strava...'' st) = (r1, st1)"
      "trace st' = trace st1" "same_credentials st1 st'"
      "\<forall>xs. r1 = Inr (JArray xs) \<longrightarrow> xs = []"
  | (looped) xs st1 r2 where
      "fetch_activities W args (py_print ''Fetching activity from Strava...'' st)
         = (Inr (JArray xs), st1)"
      "xs \<noteq> []"
      "for_activities F W args xs st1 = (r2, st')"
      "r = (case r2 of Inl e \<Rightarrow> Inl e | Inr ex \<Rightarrow> Inr ())"
proof (cases "unset (STRAVA_ACCESS_TOKEN st) \<or> unset (ANTHROPIC_API_KEY st)
              \<or> ANTHROPIC_API_KEY st = Some ''your_anthropic_api_key_here''")
  case True
  with assms have "trace st' = trace st \<and> same_credentials st st' \<and> r = Inr ()"
    by (auto simp: main_def split: if_splits)
  then show ?thesis
    using stopped by blast
next
  case False
  let ?st0 = "py_print ''Fetching activity from Strava...'' st"
  obtain r1 st1 where f: "fetch_activities W args ?st0 = (r1, st1)"
    by (cases "fetch_activities W args ?st0")
  show ?thesis
  proof (cases "\<exists>xs. r1 = Inr (JArray xs) \<and> xs \<noteq> []")
    case True
    then obtain xs where xs: "r1 = Inr (JArray xs)" "xs \<noteq> []"
      by blast
    obtain r2 st2 where l: "for_activities F W args xs st1 = (r2, st2)"
      by (cases "for_activities F W args xs st1")
    from assms False f xs l have "st' = st2" "r = (case r2 of Inl e \<Rightarrow> Inl e | Inr ex \<Rightarrow> Inr ())"
      by (auto simp: main_def split: sum.splits)
    with f xs l show ?thesis
      using looped by blast
  next
    case no_list: False
    have "trace st' = trace st1 \<and> same_credentials st1 st'"
    proof (cases r1)
      case (Inl e)
      with assms False f show ?thesis
        by (auto simp: main_def)
    next
      case (Inr j)
      with assms False f no_list show ?thesis
        by (cases j) (auto simp: main_def split: if_splits)
    qed
    with f no_list show ?thesis
      using fetched by blast
  qed
qed

lemma main_refreshes:
  assumes "main F W args st = (r, st')"
  shows "refreshes_as st st'"
  using assms
proof (cases rule: main_phases)
  case stopped
  then show ?thesis
    by (auto simp: refreshes_as_def refresh_posts_def)
next
  case (fetched r1 st1)
  from fetch_activities_refreshes [OF fetched(1)] have "refreshes_as st st1"
    by simp
  moreover have "refreshes_as st1 st'"
    using fetched(2,3) by (auto simp: refreshes_as_def refresh_posts_def)
  ultimately show ?thesis
    by (rule refreshes_as_trans)
next
  case (looped xs st1 r2)
  from fetch_activities_refreshes [OF looped(1)] have "refreshes_as st st1"
    by simp
  moreover have "refreshes_as st1 st'"
    using looped(3) by (rule for_activities_refreshes)
  ultimately show ?thesis
    by (rule refreshes_as_trans)
qed

section \<open>Update calls of the loop\<close>





lemma update_calls_simps [simp]:
  "update_calls [] = []"
  "update_calls (LlmCall s # es) = update_calls es"
  "update_calls (HttpSend q # es) = update_calls es"
  "update_calls (ApiCall ''PUT'' ep p # es) = (ep, p) # update_calls es"
  "update_calls (ApiCall ''GET'' ep p # es) = update_calls es"
  "update_calls (map HttpSend hs) = []"
  by (simp_all add: update_calls_def)


section \<open>Concrete runs\<close>

text \<open>Concrete runs are computed by unfolding the model along these equations.\<close>

lemma run_summary:
  "build_workout_summary exact_ops morning_run =
     Inr ''Activity Type: Run\<newline>Original Title: Morning Run\<newline>Duration: 1h 1m 1s\<newline>Distance: 6.21 mi\<newline>Pace: 10:00 /mi\<newline>Average Heart Rate: 150 bpm\<newline>Elevation Gain: 328 ft''"
  by code_simp

lemma ride_summary:
  "build_workout_summary exact_ops evening_ride =
     Inr ''Activity Type: Ride\<newline>Original Title: Evening Ride\<newline>Duration: 1m 30s''"
  by code_simp

lemma reply_parsed:
  "parse_response ''TITLE: Blistering Barnacles\<newline>DESCRIPTION: Six miles!\<newline>Thundering typhoons.''
     = (''Blistering Barnacles'', ''Six miles!\<newline>Thundering typhoons.'')"
  by code_simp

lemma activity_ids: "str_int 42 = ''42''" "str_int 43 = ''43''"
  by code_simp+

lemma activity_fields:
  "act_id morning_run = Some 42" "act_id evening_ride = Some 43"
  by (simp_all add: morning_run_def evening_ride_def empty_obj_def)

lemmas run_simps =
  main_def fetch_activities_def get_last_N_activities_def get_latest_activity_def
  get_activity_def first_item_def given_def unset_def get_or_def
  process_activity_def haddockify_def update_activity_def strava_request_def
  refresh_access_token_def refresh_request_def subscript_def http_send_def api_request_def
  finish_def raise_for_status_def json_of_def Let_def
  STRAVA_API_BASE_def token_url_def start_state_def last_n_args_def latest_args_def
  api_reply_def per_page_def ok_reply_def status_reply_def grant_def token_obj_def
  haddock_reply_def
  run_summary ride_summary reply_parsed activity_ids activity_fields

lemma tired_list:
  "get_last_N_activities tired_world 3
       (py_print ''Fetching activity from Strava...'' start_state)
     = (Inr (JArray ([JObject morning_run] @ JObject evening_ride # [JObject morning_run])),
        tired_listed)"
  unfolding tired_listed_def by (simp add: run_simps tired_world_def)

lemma tired_listed_fields:
  "trace tired_listed =
     [ApiCall ''GET'' ''/athlete/activities'' (Params [(''per_page'', 3)]),
      HttpSend (api_request (Some ''old-access'') ''GET'' ''/athlete/activities''
                  (Params [(''per_page'', 3)]))]"
  "STRAVA_ACCESS_TOKEN tired_listed = Some ''old-access''"
  unfolding tired_listed_def by (simp_all add: run_simps tired_world_def py_print_def)

lemma tired_first:
  "for_activities exact_ops tired_world (last_n_args 3) [JObject morning_run] tired_listed
     = (Inr Continue, tired_after_first)"
  unfolding tired_after_first_def
  by (simp add: run_simps tired_world_def tired_listed_fields print_activity_def
      print_version_def py_print_def)

lemma tired_first_trace:
  "trace tired_after_first =
     trace tired_listed @
     [LlmCall ''Activity Type: Run\<newline>Original Title: Morning Run\<newline>Duration: 1h 1m 1s\<newline>Distance: 6.21 mi\<newline>Pace: 10:00 /mi\<newline>Average Heart Rate: 150 bpm\<newline>Elevation Gain: 328 ft'',
      ApiCall ''PUT'' ''/activities/42''
        (JsonBody [(''name'', ''Blistering Barnacles''),
                   (''description'', ''Six miles!\<newline>Thundering typhoons.'')]),
      HttpSend (api_request (Some ''old-access'') ''PUT'' ''/activities/42''
        (JsonBody [(''name'', ''Blistering Barnacles''),
                   (''description'', ''Six miles!\<newline>Thundering typhoons.'')]))]"
  unfolding tired_after_first_def
  by (simp add: run_simps tired_world_def tired_listed_fields print_activity_def
      print_version_def py_print_def)

section \<open>The refresh token of the process\<close>

lemma strava_request_refreshed:
  assumes first: "status_code (server W (length (http_sends (trace st)))
              (api_request (STRAVA_ACCESS_TOKEN st) v ep p)) = 401"
    and pair: "token_pair (server W (Suc (length (http_sends (trace st)))) (refresh_request st))
              = Some (a, rt)"
    and run: "strava_request W v ep p st = (r, st')"
  shows "STRAVA_ACCESS_TOKEN st' = Some a \<and> STRAVA_REFRESH_TOKEN st' = STRAVA_REFRESH_TOKEN st
         \<and> dotenv st' = AList.update ''STRAVA_REFRESH_TOKEN'' rt
                          (AList.update ''STRAVA_ACCESS_TOKEN'' a (dotenv st))"
proof -
  let ?first = "api_request (STRAVA_ACCESS_TOKEN st) v ep p"
  let ?st1 = "py_print ''Token expired, refreshing...''
      (st\<lparr>trace := trace st @ [ApiCall v ep p, HttpSend ?first]\<rparr>)"
  have "refresh_access_token W ?st1 =
      (Inr a, set_key ''STRAVA_REFRESH_TOKEN'' rt (set_key ''STRAVA_ACCESS_TOKEN'' a
                (?st1\<lparr>trace := trace ?st1 @ [HttpSend (refresh_request ?st1)]\<rparr>)))"
    using pair by (intro refresh_access_token_ok) simp
  with first run show ?thesis
    by (auto simp: strava_request_def http_send_def Let_def dest!: finish_state)
qed

text \<open>
  C10. A refresh leaves both globals as they were and, when it succeeds, writes the new
  access token and the new refresh token to the \<open>.env\<close> file; \<open>strava_request\<close> then
  replaces the access token global only. So the refresh token global keeps the value it
  was loaded with, through \<open>strava_request\<close> and through a whole run of \<open>main\<close>, and every
  refresh of a run posts that value, whatever refresh tokens the run received before.
\<close>

theorem refresh_token_global_kept:
  "(case refresh_access_token W st of (r, st') \<Rightarrow>
      STRAVA_REFRESH_TOKEN st' = STRAVA_REFRESH_TOKEN st
      \<and> STRAVA_ACCESS_TOKEN st' = STRAVA_ACCESS_TOKEN st
      \<and> (\<forall>a. r = Inr a \<longrightarrow>
            (\<exists>rt. token_pair (server W (length (http_sends (trace st))) (refresh_request st))
                     = Some (a, rt)
                 \<and> dotenv st' = AList.update ''STRAVA_REFRESH_TOKEN'' rt
                                  (AList.update ''STRAVA_ACCESS_TOKEN'' a (dotenv st)))))
   \<and> (case strava_request W v ep p st of (r, st') \<Rightarrow>
        STRAVA_REFRESH_TOKEN st' = STRAVA_REFRESH_TOKEN st
        \<and> (\<forall>a rt. status_code (server W (length (http_sends (trace st)))
                       (api_request (STRAVA_ACCESS_TOKEN st) v ep p)) = 401
                  \<and> token_pair (server W (Suc (length (http_sends (trace st))))
                       (refresh_request st)) = Some (a, rt)
              \<longrightarrow> STRAVA_ACCESS_TOKEN st' = Some a
                  \<and> dotenv st' = AList.update ''STRAVA_REFRESH_TOKEN'' rt
                                   (AList.update ''STRAVA_ACCESS_TOKEN'' a (dotenv st))))
   \<and> (case main F W args st of (r, st') \<Rightarrow>
        STRAVA_REFRESH_TOKEN st' = STRAVA_REFRESH_TOKEN st
        \<and> (\<exists>new. trace st' = trace st @ new
              \<and> (\<forall>q\<in>set (refresh_posts new).
                    req_payload q = FormData [(''client_id'', STRAVA_CLIENT_ID st),
                                              (''client_secret'', STRAVA_CLIENT_SECRET st),
                                              (''grant_type'', Some ''refresh_token''),
                                              (''refresh_token'', STRAVA_REFRESH_TOKEN st)])))"
proof (intro conjI)
  obtain r st' where run: "refresh_access_token W st = (r, st')"
    by (cases "refresh_access_token W st")
  have "\<exists>rt. token_pair (server W (length (http_sends (trace st))) (refresh_request st)) = Some (a, rt)
           \<and> dotenv st' = AList.update ''STRAVA_REFRESH_TOKEN'' rt
                            (AList.update ''STRAVA_ACCESS_TOKEN'' a (dotenv st))"
    if "r = Inr a" for a
  proof (cases "token_pair (server W (length (http_sends (trace st))) (refresh_request st))")
    case None
    from refresh_access_token_fails [OF None] run that show ?thesis
      by auto
  next
    case (Some pr)
    obtain a' rt where pr: "pr = (a', rt)"
      by (cases pr)
    with Some run that refresh_access_token_ok [of W st a' rt] show ?thesis
      by auto
  qed
  with refresh_access_token_effect [OF run] run
  show "case refresh_access_token W st of (r, st') \<Rightarrow>
      STRAVA_REFRESH_TOKEN st' = STRAVA_REFRESH_TOKEN st
      \<and> STRAVA_ACCESS_TOKEN st' = STRAVA_ACCESS_TOKEN st
      \<and> (\<forall>a. r = Inr a \<longrightarrow>
            (\<exists>rt. token_pair (server W (length (http_sends (trace st))) (refresh_request st))
                     = Some (a, rt)
                 \<and> dotenv st' = AList.update ''STRAVA_REFRESH_TOKEN'' rt
                                  (AList.update ''STRAVA_ACCESS_TOKEN'' a (dotenv st))))"
    by (simp add: same_credentials_def)
next
  obtain r st' where run: "strava_request W v ep p st = (r, st')"
    by (cases "strava_request W v ep p st")
  from strava_request_effect [OF run] have "STRAVA_REFRESH_TOKEN st' = STRAVA_REFRESH_TOKEN st"
    by (simp add: same_credentials_def)
  with run strava_request_refreshed [OF _ _ run]
  show "case strava_request W v ep p st of (r, st') \<Rightarrow>
        STRAVA_REFRESH_TOKEN st' = STRAVA_REFRESH_TOKEN st
        \<and> (\<forall>a rt. status_code (server W (length (http_sends (trace st)))
                       (api_request (STRAVA_ACCESS_TOKEN st) v ep p)) = 401
                  \<and> token_pair (server W (Suc (length (http_sends (trace st))))
                       (refresh_request st)) = Some (a, rt)
              \<longrightarrow> STRAVA_ACCESS_TOKEN st' = Some a
                  \<and> dotenv st' = AList.update ''STRAVA_REFRESH_TOKEN'' rt
                                   (AList.update ''STRAVA_ACCESS_TOKEN'' a (dotenv st)))"
    by simp
next
  obtain r st' where run: "main F W args st = (r, st')"
    by (cases "main F W args st")
  have payload: "req_payload (refresh_request st) =
      FormData [(''client_id'', STRAVA_CLIENT_ID st),
                (''client_secret'', STRAVA_CLIENT_SECRET st),
                (''grant_type'', Some ''refresh_token''),
                (''refresh_token'', STRAVA_REFRESH_TOKEN st)]"
    by (simp add: refresh_request_def)
  from main_refreshes [OF run] obtain new where
    "STRAVA_REFRESH_TOKEN st' = STRAVA_REFRESH_TOKEN st" "trace st' = trace st @ new"
    "\<forall>q\<in>set (refresh_posts new). q = refresh_request st"
    by (auto simp: refreshes_as_def same_credentials_def)
  with payload
  have "STRAVA_REFRESH_TOKEN st' = STRAVA_REFRESH_TOKEN st
        \<and> (\<exists>new. trace st' = trace st @ new
              \<and> (\<forall>q\<in>set (refresh_posts new).
                    req_payload q = FormData [(''client_id'', STRAVA_CLIENT_ID st),
                                              (''client_secret'', STRAVA_CLIENT_SECRET st),
                                              (''grant_type'', Some ''refresh_token''),
                                              (''refresh_token'', STRAVA_REFRESH_TOKEN st)]))"
    by metis
  with run
  show "case main F W args st of (r, st') \<Rightarrow>
        STRAVA_REFRESH_TOKEN st' = STRAVA_REFRESH_TOKEN st
        \<and> (\<exists>new. trace st' = trace st @ new
              \<and> (\<forall>q\<in>set (refresh_posts new).
                    req_payload q = FormData [(''client_id'', STRAVA_CLIENT_ID st),
                                              (''client_secret'', STRAVA_CLIENT_SECRET st),
                                              (''grant_type'', Some ''refresh_token''),
                                              (''refresh_token'', STRAVA_REFRESH_TOKEN st)]))"
    by simp
qed

text \<open>
  A run that refreshes and keeps the global; and two calls in a row that both refresh:
  the second posts the refresh token of the start although the file holds the one the
  first refresh received.
\<close>

theorem refresh_token_global_kept_witness:
  "STRAVA_REFRESH_TOKEN (snd (main exact_ops stale_world (last_n_args 3) start_state))
     = Some ''old-refresh''
   \<and> dotenv (snd (strava_request expiring_world ''GET'' ''/athlete/activities'' NoPayload
                     start_state))
     = [(''STRAVA_ACCESS_TOKEN'', ''access-1''), (''STRAVA_REFRESH_TOKEN'', ''refresh-1'')]
   \<and> map req_payload (refresh_posts (trace
        (snd (strava_request expiring_world ''PUT'' ''/activities/42'' NoPayload
           (snd (strava_request expiring_world ''GET'' ''/athlete/activities'' NoPayload
                   start_state))))))
     = replicate 2 (FormData [(''client_id'', Some ''12345''),
                              (''client_secret'', Some ''shh''),
                              (''grant_type'', Some ''refresh_token''),
                              (''refresh_token'', Some ''old-refresh'')])"
proof -
  from refresh_token_global_kept [where W = stale_world and st = start_state
      and v = "''GET''" and ep = "''/athlete/activities''" and p = NoPayload
      and F = exact_ops and args = "last_n_args 3"]
  have "STRAVA_REFRESH_TOKEN (snd (main exact_ops stale_world (last_n_args 3) start_state))
      = STRAVA_REFRESH_TOKEN start_state"
    by (simp add: split_beta)
  then have kept: "STRAVA_REFRESH_TOKEN
      (snd (main exact_ops stale_world (last_n_args 3) start_state)) = Some ''old-refresh''"
    by (simp add: start_state_def)
  have "dotenv (snd (strava_request expiring_world ''GET'' ''/athlete/activities'' NoPayload
                     start_state))
     = [(''STRAVA_ACCESS_TOKEN'', ''access-1''), (''STRAVA_REFRESH_TOKEN'', ''refresh-1'')]
   \<and> map req_payload (refresh_posts (trace
        (snd (strava_request expiring_world ''PUT'' ''/activities/42'' NoPayload
           (snd (strava_request expiring_world ''GET'' ''/athlete/activities'' NoPayload
                   start_state))))))
     = replicate 2 (FormData [(''client_id'', Some ''12345''),
                              (''client_secret'', Some ''shh''),
                              (''grant_type'', Some ''refresh_token''),
                              (''refresh_token'', Some ''old-refresh'')])"
    by code_simp
  with kept show ?thesis
    by (rule conjI)
qed

section \<open>Preview and update\<close>





section \<open>A batch of activities\<close>

lemma for_activities_append:
  "for_activities F W args (xs @ ys) st =
     (case for_activities F W args xs st of
        (Inr Continue, st1) \<Rightarrow> for_activities F W args ys st1
      | other \<Rightarrow> other)"
proof (induction xs arbitrary: st)
  case Nil
  then show ?case by simp
next
  case (Cons x xs)
  obtain r1 s1 where p: "process_activity F W args x st = (r1, s1)"
    by (cases "process_activity F W args x st")
  show ?case
  proof (cases r1)
    case (Inl e)
    with p show ?thesis by simp
  next
    case (Inr ex)
    with p Cons.IH [of s1] show ?thesis
      by (cases ex) simp_all
  qed
qed

lemma process_activity_generation_fails:
  assumes "act_id a = Some i" "build_workout_summary F a = Inr s"
    "claude W (length (llm_calls (trace st))) s = APIFailure msg"
  shows "process_activity F W args (JObject a) st =
     (Inr Return, py_print (''Error calling Claude API: '' @ msg)
                    ((print_activity a i st)\<lparr>trace := trace st @ [LlmCall s]\<rparr>))"
  using assms by (simp add: process_activity_def haddockify_eq)

text \<open>
  C7. In the mode of the last N activities the loop is sequential: processing a list
  \<open>xs @ ys\<close> is processing \<open>xs\<close> and then, from the state reached and only if no step of \<open>xs\<close>
  returned or raised, processing \<open>ys\<close>. When the generation call for an activity raises
  \<open>APIError\<close>, \<open>main\<close> prints the error and returns normally: the trace ends with that call,
  and the activities after it have no effect on the run.
\<close>

theorem generation_failure_aborts_batch:
  assumes mode: "\<not> given (arg_activity args)" "given (arg_activities args)"
    and checks: "\<not> unset (STRAVA_ACCESS_TOKEN st)" "\<not> unset (ANTHROPIC_API_KEY st)"
      "ANTHROPIC_API_KEY st \<noteq> Some ''your_anthropic_api_key_here''"
    and fetch: "get_last_N_activities W (get_or (arg_activities args) 0)
        (py_print ''Fetching activity from Strava...'' st)
        = (Inr (JArray (pre @ JObject a # post)), st1)"
    and before: "for_activities F W args pre st1 = (Inr Continue, st2)"
    and fails: "act_id a = Some i" "build_workout_summary F a = Inr s"
      "claude W (length (llm_calls (trace st2))) s = APIFailure msg"
  shows "main F W args st =
           (Inr (), py_print (''Error calling Claude API: '' @ msg)
                      ((print_activity a i st2)\<lparr>trace := trace st2 @ [LlmCall s]\<rparr>))
         \<and> for_activities F W args (pre @ JObject a # post) st1
             = for_activities F W args (pre @ [JObject a]) st1
         \<and> (\<forall>xs ys s0. for_activities F W args (xs @ ys) s0 =
               (case for_activities F W args xs s0 of
                  (Inr Continue, s1) \<Rightarrow> for_activities F W args ys s1
                | other \<Rightarrow> other))"
proof (intro conjI allI)
  let ?end = "py_print (''Error calling Claude API: '' @ msg)
                      ((print_activity a i st2)\<lparr>trace := trace st2 @ [LlmCall s]\<rparr>)"
  have step: "process_activity F W args (JObject a) st2 = (Inr Return, ?end)"
    using fails by (rule process_activity_generation_fails)
  have loop: "for_activities F W args (pre @ JObject a # rest) st1 = (Inr Return, ?end)" for rest
    by (simp add: for_activities_append before step)
  have "fetch_activities W args (py_print ''Fetching activity from Strava...'' st)
      = (Inr (JArray (pre @ JObject a # post)), st1)"
    using mode fetch by (simp add: fetch_activities_def)
  with checks loop [of post]
  show "main F W args st = (Inr (), ?end)"
    by (simp add: main_def)
  show "for_activities F W args (pre @ JObject a # post) st1
      = for_activities F W args (pre @ [JObject a]) st1"
    by (simp only: loop)
  show "for_activities F W args (xs @ ys) s0 =
      (case for_activities F W args xs s0 of
         (Inr Continue, s1) \<Rightarrow> for_activities F W args ys s1
       | other \<Rightarrow> other)" for xs ys s0
    by (rule for_activities_append)
qed

text \<open>
  Three activities where generation fails on the second: the first is updated, the
  second is asked for once, the third is never touched.
\<close>

theorem generation_failure_aborts_batch_witness:
  "fst (main exact_ops tired_world (last_n_args 3) start_state) = Inr ()
   \<and> llm_calls (trace (snd (main exact_ops tired_world (last_n_args 3) start_state)))
       = [''Activity Type: Run\<newline>Original Title: Morning Run\<newline>Duration: 1h 1m 1s\<newline>Distance: 6.21 mi\<newline>Pace: 10:00 /mi\<newline>Average Heart Rate: 150 bpm\<newline>Elevation Gain: 328 ft'',
          ''Activity Type: Ride\<newline>Original Title: Evening Ride\<newline>Duration: 1m 30s'']
   \<and> update_calls (trace (snd (main exact_ops tired_world (last_n_args 3) start_state)))
       = [(''/activities/42'',
           JsonBody [(''name'', ''Blistering Barnacles''),
                     (''description'', ''Six miles!\<newline>Thundering typhoons.'')])]
   \<and> last (stdout (snd (main exact_ops tired_world (last_n_args 3) start_state)))
       = ''Error calling Claude API: overloaded''"
proof -
  have mode: "\<not> given (arg_activity (last_n_args 3))" "given (arg_activities (last_n_args 3))"
    by (simp_all add: given_def last_n_args_def)
  have checks: "\<not> unset (STRAVA_ACCESS_TOKEN start_state)" "\<not> unset (ANTHROPIC_API_KEY start_state)"
      "ANTHROPIC_API_KEY start_state \<noteq> Some ''your_anthropic_api_key_here''"
    by (simp_all add: unset_def start_state_def)
  have fetch: "get_last_N_activities tired_world (get_or (arg_activities (last_n_args 3)) 0)
        (py_print ''Fetching activity from Strava...'' start_state)
        = (Inr (JArray ([JObject morning_run] @ JObject evening_ride # [JObject morning_run])),
           tired_listed)"
    using tired_list by (simp add: last_n_args_def get_or_def)
  have fails: "claude tired_world (length (llm_calls (trace tired_after_first)))
      ''Activity Type: Ride\<newline>Original Title: Evening Ride\<newline>Duration: 1m 30s''
      = APIFailure ''overloaded''"
    by (simp add: tired_first_trace tired_listed_fields tired_world_def)
  from generation_failure_aborts_batch [OF mode checks fetch tired_first
      activity_fields(2) ride_summary fails]
  have "main exact_ops tired_world (last_n_args 3) start_state =
      (Inr (), py_print (''Error calling Claude API: '' @ ''overloaded'')
         ((print_activity evening_ride 43 tired_after_first)\<lparr>trace := trace tired_after_first @
            [LlmCall ''Activity Type: Ride\<newline>Original Title: Evening Ride\<newline>Duration: 1m 30s'']\<rparr>))"
    by (rule conjunct1)
  then show ?thesis
    by (simp add: tired_first_trace tired_listed_fields)
qed

section \<open>Empty results\<close>

text \<open>
  C4. With no selection option, an athlete without activities makes \<open>main\<close> raise
  \<open>TypeError\<close>: \<open>get_latest_activity\<close> returns \<open>None\<close>, which \<open>main\<close> puts in a list, so the
  list is not empty and the loop subscripts \<open>None\<close>. Nothing is printed after the first
  line. With \<open>--activities 3\<close> the same result prints \<open>No activities found!\<close> and returns.
\<close>

theorem latest_activity_empty_raises:
  "fst (main exact_ops no_activities_world latest_args start_state) = Inl TypeError
   \<and> stdout (snd (main exact_ops no_activities_world latest_args start_state))
       = [''Fetching activity from Strava...'']
   \<and> fst (main exact_ops no_activities_world (last_n_args 3) start_state) = Inr ()
   \<and> stdout (snd (main exact_ops no_activities_world (last_n_args 3) start_state))
       = [''Fetching activity from Strava...'', ''No activities found!'']"
  by code_simp

section \<open>The authorization flow\<close>

text \<open>
  C5 (amended). When the client id is unset or empty, or the client secret is unset,
  empty or the placeholder \<open>your_client_secret_here\<close>, \<open>main\<close> of \<open>auth.py\<close> prints its two
  lines and returns, with no network call. In every other case, a client id that is a
  placeholder included, it goes on and opens the browser.
\<close>

theorem auth_main_fails_fast:
  "(unset CLIENT_ID \<or> unset CLIENT_SECRET \<or> CLIENT_SECRET = Some ''your_client_secret_here''
      \<longrightarrow> auth_main CLIENT_ID CLIENT_SECRET arriving token_endpoint =
            (Returned,
             [Printed ''ERROR: Please set STRAVA_CLIENT_ID and STRAVA_CLIENT_SECRET in .env file'',
              Printed ''Copy .env.example to .env and fill in your credentials.''])
          \<and> filter network_call (snd (auth_main CLIENT_ID CLIENT_SECRET arriving token_endpoint))
              = [])
   \<and> (\<not> (unset CLIENT_ID \<or> unset CLIENT_SECRET \<or> CLIENT_SECRET = Some ''your_client_secret_here'')
      \<longrightarrow> BrowserOpened (get_auth_url CLIENT_ID)
            \<in> set (snd (auth_main CLIENT_ID CLIENT_SECRET arriving token_endpoint)))"
  by (auto simp: auth_main_def Let_def split: prod.splits option.splits)

text \<open>
  An unset client id and a placeholder secret both stop the flow.
\<close>

theorem auth_main_fails_fast_witness:
  "unset None
   \<and> auth_main None (Some ''s3cret'') [callback_with_code] granting_endpoint =
        (Returned,
         [Printed ''ERROR: Please set STRAVA_CLIENT_ID and STRAVA_CLIENT_SECRET in .env file'',
          Printed ''Copy .env.example to .env and fill in your credentials.''])
   \<and> auth_main (Some ''12345'') (Some ''your_client_secret_here'') [callback_with_code]
        granting_endpoint =
        (Returned,
         [Printed ''ERROR: Please set STRAVA_CLIENT_ID and STRAVA_CLIENT_SECRET in .env file'',
          Printed ''Copy .env.example to .env and fill in your credentials.''])"
  using auth_main_fails_fast [of None "Some ''s3cret''" "[callback_with_code]" granting_endpoint]
    auth_main_fails_fast [of "Some ''12345''" "Some ''your_client_secret_here''"
      "[callback_with_code]" granting_endpoint]
  by (simp add: unset_def)

text \<open>
  C5 as stated fails for a client id equal to the placeholder the code knows: the flow
  binds the listener, opens the browser, and posts the exchange.
\<close>

theorem auth_main_placeholder_client_id:
  "fst (auth_main (Some ''your_client_secret_here'') (Some ''s3cret'') [callback_with_code]
          granting_endpoint) = Returned
   \<and> filter network_call
        (snd (auth_main (Some ''your_client_secret_here'') (Some ''s3cret'') [callback_with_code]
                granting_endpoint))
     = [ServerBound,
        BrowserOpened (get_auth_url (Some ''your_client_secret_here'')),
        Handled callback_with_code 200,
        ServerClosed,
        ExchangePosted [(''client_id'', Some ''your_client_secret_here''),
                        (''client_secret'', Some ''s3cret''),
                        (''code'', Some ''abc123''),
                        (''grant_type'', Some ''authorization_code'')]]"
  by code_simp

end
